theory Spec2Isabelle
  imports Complex_Main "HOL-Library.AList" "HOL-Library.Sublist"
begin

section \<open>Python values and exceptions\<close>

text \<open>
  The two modules are glue around external libraries (deepeval, langchain). The
  libraries are not part of the repository, so every call into them is a parameter of
  the model: a function that either returns a value (\<open>Inr\<close>) or raises (\<open>Inl e\<close>,
  where \<open>e\<close> is the text \<open>str(e)\<close> of the exception). The raised values stand for
  instances of Python's \<open>Exception\<close>, the class every \<open>except Exception\<close> clause of
  the source catches; \<open>KeyboardInterrupt\<close> and \<open>SystemExit\<close> are outside the model.

  A score returned by a metric is an arbitrary Python object. The source inspects it
  with \<open>isinstance(score, (int, float))\<close> and converts it with \<open>float(score)\<close>, so the
  model distinguishes \<open>None\<close>, \<open>bool\<close> (a subclass of \<open>int\<close> in Python), \<open>int\<close>,
  \<open>float\<close>, \<open>str\<close> and any other object. The type \<open>'f\<close> is Python's \<open>float\<close>.
\<close>

datatype 'f pyval =
    PyNone
  | PyBool bool
  | PyInt int
  | PyFloat 'f
  | PyStr string
  | PyObject string

type_synonym exn = string

text \<open>\<open>isinstance(v, (int, float))\<close>\<close>

fun isinstance_int_float :: "'f pyval \<Rightarrow> bool" where
  "isinstance_int_float (PyBool b) = True"
| "isinstance_int_float (PyInt i) = True"
| "isinstance_int_float (PyFloat x) = True"
| "isinstance_int_float v = False"

text \<open>
  The float arithmetic of the interpreter, as far as \<open>evaluate\<close> uses it. It is a parameter
  like the libraries: \<open>float_of_int i\<close> is \<open>float(i)\<close> for an integer, which rounds and
  raises \<open>OverflowError\<close> when \<open>i\<close> is beyond the range of a float; \<open>py_sum xs\<close> is
  \<open>sum(xs)\<close> for a non-empty list of floats; \<open>truediv x n\<close> is \<open>x / n\<close> for a float \<open>x\<close> and
  the length \<open>n\<close> of a non-empty list.
\<close>

record 'f arithmetic =
  float_of_int :: "int \<Rightarrow> exn + 'f"
  py_sum :: "'f list \<Rightarrow> 'f"
  truediv :: "'f \<Rightarrow> nat \<Rightarrow> 'f"

text \<open>
  \<open>float(v)\<close>. The source calls it only under the guard above, so the last equation is
  never used.
\<close>

fun float :: "'f arithmetic \<Rightarrow> 'f pyval \<Rightarrow> exn + 'f" where
  "float ar (PyBool b) = float_of_int ar (if b then 1 else 0)"
| "float ar (PyInt i) = float_of_int ar i"
| "float ar (PyFloat x) = Inr x"
| "float ar v = Inl ''TypeError''"

section \<open>The evaluation adapter (\<open>ragas_evaluator.py\<close>)\<close>

subsection \<open>External collaborators\<close>

text \<open>
  \<open>LLMTestCase(input=..., actual_output=..., context=..., retrieval_context=...)\<close>
\<close>

record LLMTestCase =
  input_ :: string
  actual_output :: string
  tc_context :: "string list"
  retrieval_context :: "string list"

text \<open>
  A metric object as the loop of \<open>evaluate\<close> sees it. \<open>mname\<close> is
  \<open>getattr(metric, "__name__", metric.__class__.__name__)\<close>. \<open>measure\<close> is the body of
  the \<open>try\<close> block of the loop: \<open>Inl e\<close> when
  \<open>metric.measure(tc, _show_indicator=False, _log_metric_to_confident=False)\<close> (or the
  read of \<open>reason\<close>) raises, \<open>Inr (score, reason)\<close> with the returned score and the value
  of \<open>getattr(metric, "reason", None)\<close> afterwards otherwise.
\<close>

record 'f metric =
  mname :: string
  measure :: "LLMTestCase \<Rightarrow> exn + 'f pyval \<times> 'f pyval"

text \<open>
  The four metric constructors of deepeval. \<open>AnswerRelevancyMetric\<close> stands for the
  local import followed by the constructor call: both are inside one \<open>try\<close>.
\<close>

record ('f, 'mo, 'em) deepeval =
  RAGASAnswerRelevancyMetric :: "'mo option \<Rightarrow> 'em option \<Rightarrow> exn + 'f metric"
  AnswerRelevancyMetric :: "'mo option \<Rightarrow> exn + 'f metric"
  BiasMetric :: "'mo option \<Rightarrow> exn + 'f metric"
  HallucinationMetric :: "'mo option \<Rightarrow> exn + 'f metric"

subsection \<open>\<open>RagasEvaluator\<close>\<close>

record ('mo, 'em) RagasEvaluator =
  model :: "'mo option"
  embeddings :: "'em option"

record 'f metric_result =
  score :: "'f pyval"
  reason :: "'f pyval"

record 'f EvaluationReport =
  metrics :: "(string \<times> 'f metric_result) list"
  aggregate :: "'f option"

text \<open>\<open>context = context or []\<close>: \<open>None\<close> and the empty list are both falsy.\<close>

definition context_or_empty :: "string list option \<Rightarrow> string list" where
  "context_or_empty context =
     (case context of None \<Rightarrow> [] | Some c \<Rightarrow> (if c = [] then [] else c))"

text \<open>
  The three instantiation blocks. Each takes the list \<open>metrics\<close> built so far and
  returns it after the block.
\<close>

definition instantiate_relevancy ::
  "('f, 'mo, 'em) deepeval \<Rightarrow> ('mo, 'em) RagasEvaluator \<Rightarrow> 'f metric list \<Rightarrow> 'f metric list" where
  "instantiate_relevancy env self ms =
     (case RAGASAnswerRelevancyMetric env (model self) (embeddings self) of
        Inr relevancy \<Rightarrow> ms @ [relevancy]
      | Inl _ \<Rightarrow>
          (case AnswerRelevancyMetric env (model self) of
             Inr m \<Rightarrow> ms @ [m]
           | Inl _ \<Rightarrow> ms))"

definition instantiate_bias ::
  "('f, 'mo, 'em) deepeval \<Rightarrow> ('mo, 'em) RagasEvaluator \<Rightarrow> 'f metric list \<Rightarrow> 'f metric list" where
  "instantiate_bias env self ms =
     (case BiasMetric env (model self) of
        Inr bias \<Rightarrow> ms @ [bias]
      | Inl _ \<Rightarrow> ms)"

definition instantiate_hallucination ::
  "('f, 'mo, 'em) deepeval \<Rightarrow> ('mo, 'em) RagasEvaluator \<Rightarrow> 'f metric list \<Rightarrow> 'f metric list" where
  "instantiate_hallucination env self ms =
     (case HallucinationMetric env (model self) of
        Inr hall \<Rightarrow> ms @ [hall]
      | Inl _ \<Rightarrow> ms)"

definition instantiate_metrics ::
  "('f, 'mo, 'em) deepeval \<Rightarrow> ('mo, 'em) RagasEvaluator \<Rightarrow> 'f metric list" where
  "instantiate_metrics env self =
     instantiate_hallucination env self
       (instantiate_bias env self
         (instantiate_relevancy env self []))"

text \<open>
  The \<open>try\<close>/\<open>except\<close> of the loop body: the score and reason of one metric.
\<close>

definition score_metric :: "'f metric \<Rightarrow> LLMTestCase \<Rightarrow> 'f metric_result" where
  "score_metric m tc =
     (case measure m tc of
        Inr (s, r) \<Rightarrow> \<lparr>score = s, reason = r\<rparr>
      | Inl e \<Rightarrow> \<lparr>score = PyNone, reason = PyStr (''metric error: '' @ e)\<rparr>)"

text \<open>
  The loop state: the dict \<open>results\<close> (an association list in insertion order; an
  assignment to a key already present replaces its value in place, as a Python dict
  does) and the list \<open>scores\<close>.
\<close>

record 'f loop_state =
  results :: "(string \<times> 'f metric_result) list"
  scores :: "'f list"

text \<open>
  One turn of the loop. \<open>float(score)\<close> stands outside the \<open>try\<close>: when it raises, the
  exception leaves the loop, and \<open>evaluate\<close> with it.
\<close>

definition loop_body ::
  "'f arithmetic \<Rightarrow> LLMTestCase \<Rightarrow> 'f loop_state \<Rightarrow> 'f metric \<Rightarrow> exn + 'f loop_state" where
  "loop_body ar tc st m =
     (let r = score_metric m tc;
          st1 = st\<lparr>results := AList.update (mname m) r (results st)\<rparr>
      in if isinstance_int_float (score r)
         then (case float ar (score r) of
                 Inl e \<Rightarrow> Inl e
               | Inr x \<Rightarrow> Inr (st1\<lparr>scores := scores st1 @ [x]\<rparr>))
         else Inr st1)"

fun score_loop ::
  "'f arithmetic \<Rightarrow> LLMTestCase \<Rightarrow> 'f loop_state \<Rightarrow> 'f metric list \<Rightarrow> exn + 'f loop_state" where
  "score_loop ar tc st [] = Inr st"
| "score_loop ar tc st (m # ms) =
     (case loop_body ar tc st m of
        Inl e \<Rightarrow> Inl e
      | Inr st1 \<Rightarrow> score_loop ar tc st1 ms)"

text \<open>
  \<open>context = context or []\<close> and the construction of the test case: the context is
  passed both as \<open>context\<close> and as \<open>retrieval_context\<close>.
\<close>

definition make_test_case :: "string \<Rightarrow> string \<Rightarrow> string list option \<Rightarrow> LLMTestCase" where
  "make_test_case input_text response_text context =
     (let c = context_or_empty context
      in \<lparr>input_ = input_text, actual_output = response_text,
          tc_context = c, retrieval_context = c\<rparr>)"

text \<open>\<open>sum(scores) / len(scores) if scores else None\<close>\<close>

definition aggregate_of :: "'f arithmetic \<Rightarrow> 'f list \<Rightarrow> 'f option" where
  "aggregate_of ar ss = (if ss \<noteq> [] then Some (truediv ar (py_sum ar ss) (length ss)) else None)"

definition evaluate ::
  "'f arithmetic \<Rightarrow> ('f, 'mo, 'em) deepeval \<Rightarrow> ('mo, 'em) RagasEvaluator \<Rightarrow> string \<Rightarrow> string \<Rightarrow>
     string list option \<Rightarrow> exn + 'f EvaluationReport" where
  "evaluate ar env self input_text response_text context =
     (let tc = make_test_case input_text response_text context;
          ms = instantiate_metrics env self
      in case score_loop ar tc \<lparr>results = [], scores = []\<rparr> ms of
           Inl e \<Rightarrow> Inl e
         | Inr st \<Rightarrow> Inr \<lparr>metrics = results st, aggregate = aggregate_of ar (scores st)\<rparr>)"

section \<open>Python's float arithmetic\<close>

text \<open>
  CPython's \<open>float\<close> is the IEEE 754 binary64 format. A value is a finite number (the
  positive zero is \<open>Finite 0\<close>), the negative zero, an infinity (\<open>Infinity True\<close> is the
  negative one) or a NaN. Every operation rounds the exact result to the nearest
  representable number, ties to the one with an even significand.
\<close>

datatype double = Finite real | NegZero | Infinity bool | NaN

definition pow2 :: "int \<Rightarrow> real" where
  "pow2 n = (if 0 \<le> n then 2 ^ nat n else 1 / 2 ^ nat (- n))"

text \<open>
  The exponent \<open>e\<close> with \<open>2 ^ e \<le> a < 2 ^ (e + 1)\<close>, for \<open>a\<close> below \<open>2 ^ 1024\<close>, by bisection
  of the exponent range; numbers below \<open>2 ^ - 1022\<close> are subnormal and share the exponent
  \<open>- 1022\<close>.
\<close>

fun find_exponent :: "nat \<Rightarrow> int \<Rightarrow> int \<Rightarrow> real \<Rightarrow> int" where
  "find_exponent 0 lo hi a = lo"
| "find_exponent (Suc n) lo hi a =
     (if hi \<le> lo + 1 then lo
      else let mid = (lo + hi) div 2
           in if pow2 mid \<le> a then find_exponent n mid hi a else find_exponent n lo mid a)"

definition binade :: "real \<Rightarrow> int" where
  "binade a = (if a < pow2 (- 1022) then - 1022 else find_exponent 12 (- 1022) 1024 a)"

definition round_half_even :: "real \<Rightarrow> int" where
  "round_half_even x =
     (let f = \<lfloor>x\<rfloor>; r = x - of_int f
      in if r < 1 / 2 then f else if 1 / 2 < r then f + 1 else if even f then f else f + 1)"

text \<open>Rounding a real number to a double: 53 significant bits, overflow to an infinity.\<close>

definition round_double :: "real \<Rightarrow> double" where
  "round_double q =
     (let a = \<bar>q\<bar> in
      if a = 0 then Finite 0
      else if pow2 1024 \<le> a then Infinity (q < 0)
      else
        let ulp = pow2 (binade a - 52);
            m = of_int (round_half_even (a / ulp)) * ulp
        in if pow2 1024 \<le> m then Infinity (q < 0)
           else if m = 0 then (if q < 0 then NegZero else Finite 0)
           else Finite (if q < 0 then - m else m))"

text \<open>\<open>x + y\<close> on floats.\<close>

fun dadd :: "double \<Rightarrow> double \<Rightarrow> double" where
  "dadd NaN y = NaN"
| "dadd x NaN = NaN"
| "dadd (Infinity s) (Infinity t) = (if s = t then Infinity s else NaN)"
| "dadd (Infinity s) y = Infinity s"
| "dadd x (Infinity t) = Infinity t"
| "dadd NegZero y = y"
| "dadd x NegZero = x"
| "dadd (Finite a) (Finite b) = (if a + b = 0 then Finite 0 else round_double (a + b))"

text \<open>
  \<open>x / n\<close> for a float \<open>x\<close> and an integer \<open>n\<close>: \<open>n\<close> is converted to a float and the
  quotient rounded. \<open>evaluate\<close> divides by the length of a non-empty list of at most three
  scores, whose conversion is exact; \<open>n = 0\<close>, where Python raises, does not occur.
\<close>

fun ddiv_nat :: "double \<Rightarrow> nat \<Rightarrow> double" where
  "ddiv_nat x 0 = NaN"
| "ddiv_nat NaN n = NaN"
| "ddiv_nat (Infinity s) n = Infinity s"
| "ddiv_nat NegZero n = NegZero"
| "ddiv_nat (Finite a) n = (if a = 0 then Finite 0 else round_double (a / of_nat n))"

text \<open>\<open>float(i)\<close> for an integer: correctly rounded, \<open>OverflowError\<close> beyond the range.\<close>

definition double_of_int :: "int \<Rightarrow> exn + double" where
  "double_of_int i =
     (case round_double (of_int i) of
        Infinity s \<Rightarrow> Inl ''int too large to convert to float''
      | d \<Rightarrow> Inr d)"

text \<open>
  \<open>sum(xs)\<close> on floats. Up to CPython 3.11 it is the additions \<open>0 + x0 + x1 + ...\<close> from
  left to right, each rounded. (\<open>evaluate\<close> sums a non-empty list only; for the empty
  list, where Python returns the integer 0, both functions below give the float zero.)
\<close>

definition sum_doubles :: "double list \<Rightarrow> double" where
  "sum_doubles xs = foldl dadd (Finite 0) xs"

text \<open>
  From CPython 3.12 on, \<open>sum\<close> carries a compensation term \<open>c\<close> beside the running sum
  \<open>f\<close> (Neumaier's summation) and adds it at the end when it is finite and not zero.
\<close>

fun dneg :: "double \<Rightarrow> double" where
  "dneg (Finite a) = (if a = 0 then NegZero else Finite (- a))"
| "dneg NegZero = Finite 0"
| "dneg (Infinity s) = Infinity (\<not> s)"
| "dneg NaN = NaN"

definition dsub :: "double \<Rightarrow> double \<Rightarrow> double" where
  "dsub x y = dadd x (dneg y)"

text \<open>\<open>fabs(x) >= fabs(y)\<close>: false when either is a NaN.\<close>

fun fabs_ge :: "double \<Rightarrow> double \<Rightarrow> bool" where
  "fabs_ge NaN y = False"
| "fabs_ge x NaN = False"
| "fabs_ge (Infinity s) y = True"
| "fabs_ge x (Infinity t) = False"
| "fabs_ge NegZero NegZero = True"
| "fabs_ge NegZero (Finite b) = (b = 0)"
| "fabs_ge (Finite a) NegZero = True"
| "fabs_ge (Finite a) (Finite b) = (\<bar>b\<bar> \<le> \<bar>a\<bar>)"

fun finite_nonzero :: "double \<Rightarrow> bool" where
  "finite_nonzero (Finite a) = (a \<noteq> 0)"
| "finite_nonzero d = False"

fun neumaier :: "double \<Rightarrow> double \<Rightarrow> double list \<Rightarrow> double" where
  "neumaier f c [] = (if finite_nonzero c then dadd f c else f)"
| "neumaier f c (x # xs) =
     (let t = dadd f x
      in neumaier t
           (dadd c (if fabs_ge f x then dadd (dsub f t) x else dadd (dsub x t) f))
           xs)"

fun sum_compensated :: "double list \<Rightarrow> double" where
  "sum_compensated [] = Finite 0"
| "sum_compensated (x # xs) = neumaier (dadd (Finite 0) x) (Finite 0) xs"

text \<open>
  The arithmetic of CPython: \<open>ieee False\<close> up to version 3.11, \<open>ieee True\<close> from 3.12 on.
\<close>

definition ieee :: "bool \<Rightarrow> double arithmetic" where
  "ieee compensated =
     \<lparr>float_of_int = double_of_int,
      py_sum = (if compensated then sum_compensated else sum_doubles),
      truediv = ddiv_nat\<rparr>"

text \<open>The float a decimal literal of the program text denotes, such as \<open>0.8\<close>.\<close>

definition float_literal :: "real \<Rightarrow> double" where
  "float_literal q = round_double q"

section \<open>The ingestion adapter (\<open>doc_loader.py\<close>)\<close>

subsection \<open>Strings\<close>

text \<open>
  \<open>str.lower()\<close> on the letters the extension test can be affected by: strings are
  lists of 8-bit characters and the upper-case ASCII letters are mapped to lower case
  (no character outside ASCII has one of \<open>p d f x l s\<close> as its lower case).
\<close>

definition lower_char :: "char \<Rightarrow> char" where
  "lower_char c =
     (case map_of (zip ''ABCDEFGHIJKLMNOPQRSTUVWXYZ'' ''abcdefghijklmnopqrstuvwxyz'') c of
        Some l \<Rightarrow> l
      | None \<Rightarrow> c)"

definition lower :: "string \<Rightarrow> string" where
  "lower s = map lower_char s"

text \<open>\<open>s.endswith(t)\<close>\<close>

definition endswith :: "string \<Rightarrow> string \<Rightarrow> bool" where
  "endswith s t = (length t \<le> length s \<and> drop (length s - length t) s = t)"

subsection \<open>External collaborators and module state\<close>

text \<open>
  The object built by
  \<open>WebBaseLoader(web_path=link, requests_per_second=1, trust_env=True)\<close>.
\<close>

record web_loader =
  web_path :: string
  requests_per_second :: nat
  trust_env :: bool

definition loader_for :: "string \<Rightarrow> web_loader" where
  "loader_for link = \<lparr>web_path = link, requests_per_second = 1, trust_env = True\<rparr>"

text \<open>
  The langchain loaders. \<open>PyPDFLoader_load p\<close> is \<open>PyPDFLoader(p).load()\<close> and
  \<open>UnstructuredExcelLoader_load p\<close> is \<open>UnstructuredExcelLoader(p).load()\<close>: constructor
  and \<open>load\<close> stand together outside any \<open>try\<close>. For the web loader the constructor
  (\<open>WebBaseLoader_init\<close>, \<open>Some e\<close> when it raises) is outside the \<open>try\<close> and
  \<open>load\<close> (\<open>WebBaseLoader_load\<close>) is inside, so they are separate. The type \<open>'doc\<close>
  is langchain's \<open>Document\<close>.
\<close>

record 'doc langchain =
  PyPDFLoader_load :: "string \<Rightarrow> exn + 'doc list"
  UnstructuredExcelLoader_load :: "string \<Rightarrow> exn + 'doc list"
  WebBaseLoader_init :: "web_loader \<Rightarrow> exn option"
  WebBaseLoader_load :: "web_loader \<Rightarrow> exn + 'doc list"

text \<open>
  What \<open>print\<close> wrote. The failure message is the f-string of the source; the other
  calls print the \<open>repr\<close> of objects, kept here as the objects themselves.
\<close>

datatype 'doc printed =
    PrintedArgs "string list" "string list"
  | PrintedLoader web_loader
  | PrintedText string
  | PrintedDocs "'doc list"

text \<open>
  The state of the process: the module-level list \<open>docs\<close> and the console.
\<close>

record 'doc module_state =
  docs :: "'doc list"
  stdout :: "'doc printed list"

definition py_print :: "'doc printed \<Rightarrow> 'doc module_state \<Rightarrow> 'doc module_state" where
  "py_print x st = st\<lparr>stdout := stdout st @ [x]\<rparr>"

text \<open>\<open>docs.extend(ds)\<close>\<close>

definition docs_extend :: "'doc list \<Rightarrow> 'doc module_state \<Rightarrow> 'doc module_state" where
  "docs_extend ds st = st\<lparr>docs := docs st @ ds\<rparr>"

subsection \<open>\<open>document_loader\<close>\<close>

text \<open>The attributes of an instance.\<close>

record document_loader =
  rag_files :: "string list"
  rag_links :: "string list"

text \<open>\<open>x or []\<close> for an optional list argument.\<close>

definition list_or_empty :: "string list option \<Rightarrow> string list" where
  "list_or_empty x = (case x of None \<Rightarrow> [] | Some xs \<Rightarrow> (if xs = [] then [] else xs))"

text \<open>
  The first loop of \<open>_build_vectorstore\<close>. The result pairs the state reached with
  \<open>Some e\<close> when the exception \<open>e\<close> left the loop: what was appended before stays in
  \<open>docs\<close>.
\<close>

fun load_files ::
  "'doc langchain \<Rightarrow> string list \<Rightarrow> 'doc module_state \<Rightarrow> 'doc module_state \<times> exn option" where
  "load_files env [] st = (st, None)"
| "load_files env (file_path # rest) st =
     (if endswith (lower file_path) ''.pdf'' then
        (case PyPDFLoader_load env file_path of
           Inl e \<Rightarrow> (st, Some e)
         | Inr ds \<Rightarrow> load_files env rest (docs_extend ds st))
      else if endswith (lower file_path) ''.xls'' \<or> endswith (lower file_path) ''.xlsx'' then
        (case UnstructuredExcelLoader_load env file_path of
           Inl e \<Rightarrow> (st, Some e)
         | Inr ds \<Rightarrow> load_files env rest (docs_extend ds st))
      else load_files env rest st)"

text \<open>The second loop of \<open>_build_vectorstore\<close>.\<close>

fun load_links ::
  "'doc langchain \<Rightarrow> string list \<Rightarrow> 'doc module_state \<Rightarrow> 'doc module_state \<times> exn option" where
  "load_links env [] st = (st, None)"
| "load_links env (link # rest) st =
     (let loader = loader_for link in
      case WebBaseLoader_init env loader of
        Some e \<Rightarrow> (st, Some e)
      | None \<Rightarrow>
          (let st1 = py_print (PrintedLoader loader) st in
           case WebBaseLoader_load env loader of
             Inr ds \<Rightarrow> load_links env rest (docs_extend ds st1)
           | Inl e \<Rightarrow>
               load_links env rest
                 (py_print (PrintedText (''Failed to load '' @ link @ '': '' @ e)) st1)))"

text \<open>\<open>_build_vectorstore\<close>: returns the shared list itself.\<close>

definition build_vectorstore ::
  "'doc langchain \<Rightarrow> document_loader \<Rightarrow> 'doc module_state \<Rightarrow>
     'doc module_state \<times> (exn + 'doc list)" where
  "build_vectorstore env self st =
     (case load_files env (rag_files self) st of
        (st1, Some e) \<Rightarrow> (st1, Inl e)
      | (st1, None) \<Rightarrow>
          (case load_links env (rag_links self) st1 of
             (st2, Some e) \<Rightarrow> (st2, Inl e)
           | (st2, None) \<Rightarrow> (py_print (PrintedDocs (docs st2)) st2, Inr (docs st2))))"

text \<open>
  \<open>document_loader(rag_files, rag_links)\<close>: runs \<open>__init__\<close> and gives the instance, or
  the exception that left \<open>__init__\<close>. The value of \<open>_build_vectorstore\<close> is dropped.
\<close>

definition document_loader_init ::
  "'doc langchain \<Rightarrow> string list option \<Rightarrow> string list option \<Rightarrow> 'doc module_state \<Rightarrow>
     'doc module_state \<times> (exn + document_loader)" where
  "document_loader_init env files links st =
     (let self = \<lparr>rag_files = list_or_empty files, rag_links = list_or_empty links\<rparr> in
      if rag_files self \<noteq> [] \<or> rag_links self \<noteq> [] then
        (let st1 = py_print (PrintedArgs (rag_files self) (rag_links self)) st in
         case build_vectorstore env self st1 of
           (st2, Inl e) \<Rightarrow> (st2, Inl e)
         | (st2, Inr _) \<Rightarrow> (st2, Inr self))
      else (st, Inr self))"

text \<open>
  Executing the module (an import): \<open>docs = []\<close>, the class definition, the top-level
  construction with the hard-coded link, \<open>print(docs)\<close>.
\<close>

definition guide_url :: string where
  "guide_url = ''https://deepeval.com/guides/guides-ai-agent-evaluation''"

definition import_doc_loader :: "'doc langchain \<Rightarrow> 'doc module_state \<times> exn option" where
  "import_doc_loader env =
     (let st0 = \<lparr>docs = [], stdout = []\<rparr> in
      case document_loader_init env None (Some [guide_url]) st0 of
        (st1, Inl e) \<Rightarrow> (st1, Some e)
      | (st1, Inr _) \<Rightarrow> (py_print (PrintedDocs (docs st1)) st1, None))"

section \<open>Notions used to state the properties\<close>

subsection \<open>Evaluation\<close>

text \<open>The score each metric of a list produces on a test case, in order.\<close>

definition metric_scores :: "'f metric list \<Rightarrow> LLMTestCase \<Rightarrow> 'f pyval list" where
  "metric_scores ms tc = map (\<lambda>m. score (score_metric m tc)) ms"

text \<open>A score that is not numeric, or a numeric one that \<open>float\<close> converts.\<close>

definition converts :: "'f arithmetic \<Rightarrow> 'f pyval \<Rightarrow> bool" where
  "converts ar v = (case float ar v of Inr x \<Rightarrow> True | Inl e \<Rightarrow> \<not> isinstance_int_float v)"

text \<open>The numeric scores among a list of scores, as floats.\<close>

definition numeric_floats :: "'f arithmetic \<Rightarrow> 'f pyval list \<Rightarrow> 'f list" where
  "numeric_floats ar vs =
     concat (map (\<lambda>v. if isinstance_int_float v
                       then (case float ar v of Inr x \<Rightarrow> [x] | Inl e \<Rightarrow> [])
                       else []) vs)"

text \<open>
  The mean of a list of floats as float arithmetic computes it: their sum divided by
  their number; \<open>None\<close> for the empty list.
\<close>

definition float_mean :: "'f arithmetic \<Rightarrow> 'f list \<Rightarrow> 'f option" where
  "float_mean ar xs = (if xs = [] then None else Some (truediv ar (py_sum ar xs) (length xs)))"

text \<open>The scores stored in a result mapping.\<close>

definition entry_scores :: "(string \<times> 'f metric_result) list \<Rightarrow> 'f pyval list" where
  "entry_scores al = map (\<lambda>(n, res). score res) al"

text \<open>A constructor call that may raise, as the list of metrics it contributes.\<close>

definition available :: "exn + 'f metric \<Rightarrow> 'f metric list" where
  "available c = (case c of Inr m \<Rightarrow> [m] | Inl _ \<Rightarrow> [])"

text \<open>The entry the loop stores for a metric.\<close>

definition store_entry ::
  "LLMTestCase \<Rightarrow> (string \<times> 'f metric_result) list \<Rightarrow> 'f metric \<Rightarrow>
     (string \<times> 'f metric_result) list" where
  "store_entry tc al m = AList.update (mname m) (score_metric m tc) al"

text \<open>
  Test doubles: a metric with a fixed name and a fixed outcome of scoring, and a
  deepeval whose four constructors have fixed outcomes.
\<close>

definition stub_metric :: "string \<Rightarrow> exn + 'f pyval \<times> 'f pyval \<Rightarrow> 'f metric" where
  "stub_metric n out = \<lparr>mname = n, measure = (\<lambda>tc. out)\<rparr>"

definition stub_deepeval ::
  "exn + 'f metric \<Rightarrow> exn + 'f metric \<Rightarrow> exn + 'f metric \<Rightarrow> exn + 'f metric \<Rightarrow>
     ('f, string, string) deepeval" where
  "stub_deepeval ragas generic bias hall =
     \<lparr>RAGASAnswerRelevancyMetric = (\<lambda>mo em. ragas), AnswerRelevancyMetric = (\<lambda>mo. generic),
      BiasMetric = (\<lambda>mo. bias), HallucinationMetric = (\<lambda>mo. hall)\<rparr>"

definition stub_evaluator :: "(string, string) RagasEvaluator" where
  "stub_evaluator = \<lparr>model = Some ''gpt-4o'', embeddings = None\<rparr>"

text \<open>
  A run in which relevancy scores 0.5, bias fails to score and hallucination scores
  the integer 1, under the names deepeval gives these metrics.
\<close>

definition mixed_deepeval :: "(double, string, string) deepeval" where
  "mixed_deepeval =
     stub_deepeval
       (Inr (stub_metric ''Answer Relevancy (ragas)'' (Inr (PyFloat (Finite (1 / 2)), PyStr ''ok''))))
       (Inl ''not reached'')
       (Inr (stub_metric ''Bias'' (Inl ''no API key'')))
       (Inr (stub_metric ''Hallucination'' (Inr (PyInt 1, PyNone))))"

text \<open>
  A run in which the RAGAS metric cannot be built and the generic relevancy metric
  stands in for it, bias cannot be built, and hallucination can.
\<close>

definition fallback_deepeval :: "(double, string, string) deepeval" where
  "fallback_deepeval =
     stub_deepeval
       (Inl ''ragas is not installed'')
       (Inr (stub_metric ''Answer Relevancy'' (Inr (PyFloat (Finite (1 / 2)), PyStr ''ok''))))
       (Inl ''no model'')
       (Inr (stub_metric ''Hallucination'' (Inr (PyInt 1, PyNone))))"

text \<open>
  The example of the specification: a relevancy metric, reporting the name \<open>n\<close>, that
  scores \<open>0.8\<close> (the float this literal denotes), and bias and hallucination metrics that
  cannot be built.
\<close>

definition zero_point_eight :: double where
  "zero_point_eight = float_literal (8 / 10)"

definition ragas_only_deepeval :: "string \<Rightarrow> (double, string, string) deepeval" where
  "ragas_only_deepeval n =
     stub_deepeval
       (Inr (stub_metric n (Inr (PyFloat zero_point_eight, PyStr ''relevant''))))
       (Inl ''not reached'')
       (Inl ''bias unavailable'')
       (Inl ''hallucination unavailable'')"

text \<open>A run in which the three metrics score 1.0, 0.0 and 0.0.\<close>

definition thirds_deepeval :: "(double, string, string) deepeval" where
  "thirds_deepeval =
     stub_deepeval
       (Inr (stub_metric ''Answer Relevancy (ragas)'' (Inr (PyFloat (Finite 1), PyNone))))
       (Inl ''not reached'')
       (Inr (stub_metric ''Bias'' (Inr (PyFloat (Finite 0), PyNone))))
       (Inr (stub_metric ''Hallucination'' (Inr (PyFloat (Finite 0), PyNone))))"

text \<open>A run whose only metric returns the integer \<open>10 ** 400\<close> as its score.\<close>

definition huge_int :: int where
  "huge_int = 10 ^ 400"

definition huge_deepeval :: "(double, string, string) deepeval" where
  "huge_deepeval =
     stub_deepeval
       (Inr (stub_metric ''Answer Relevancy (ragas)'' (Inr (PyInt huge_int, PyNone))))
       (Inl ''not reached'')
       (Inl ''bias unavailable'')
       (Inl ''hallucination unavailable'')"

subsection \<open>Ingestion\<close>

text \<open>
  A path ends in an extension case-insensitively: its last characters are the
  extension's up to the case of letters.
\<close>

definition same_letter :: "char \<Rightarrow> char \<Rightarrow> bool" where
  "same_letter a b = (lower_char a = lower_char b)"

definition ends_ci :: "string \<Rightarrow> string \<Rightarrow> bool" where
  "ends_ci p ext =
     (length ext \<le> length p \<and> list_all2 same_letter (drop (length p - length ext) p) ext)"

text \<open>
  What handling one file path amounts to: the PDF loader for \<open>.pdf\<close>, the spreadsheet
  loader for \<open>.xls\<close> and \<open>.xlsx\<close>, nothing for any other path.
\<close>

definition file_outcome :: "'doc langchain \<Rightarrow> string \<Rightarrow> exn + 'doc list" where
  "file_outcome env p =
     (if ends_ci p ''.pdf'' then PyPDFLoader_load env p
      else if ends_ci p ''.xls'' \<or> ends_ci p ''.xlsx'' then UnstructuredExcelLoader_load env p
      else Inr [])"

text \<open>The documents a load contributes: none when it raised.\<close>

definition loaded_docs :: "exn + 'doc list \<Rightarrow> 'doc list" where
  "loaded_docs r = (case r of Inr ds \<Rightarrow> ds | Inl _ \<Rightarrow> [])"

definition file_docs :: "'doc langchain \<Rightarrow> string \<Rightarrow> 'doc list" where
  "file_docs env p = loaded_docs (file_outcome env p)"

definition link_docs :: "'doc langchain \<Rightarrow> string \<Rightarrow> 'doc list" where
  "link_docs env link = loaded_docs (WebBaseLoader_load env (loader_for link))"

text \<open>What handling one link prints.\<close>

definition link_output :: "'doc langchain \<Rightarrow> string \<Rightarrow> 'doc printed list" where
  "link_output env link =
     PrintedLoader (loader_for link) #
       (case WebBaseLoader_load env (loader_for link) of
          Inr _ \<Rightarrow> []
        | Inl e \<Rightarrow> [PrintedText (''Failed to load '' @ link @ '': '' @ e)])"

text \<open>
  Test doubles: loaders given by association lists from paths and links to outcomes
  (a path or link not listed raises), with a web loader constructor that never raises.
  Documents are strings.
\<close>

definition lookup_outcome :: "(string \<times> (exn + string list)) list \<Rightarrow> string \<Rightarrow> exn + string list" where
  "lookup_outcome al k = (case map_of al k of Some r \<Rightarrow> r | None \<Rightarrow> Inl ''not found'')"

definition stub_langchain ::
  "(string \<times> (exn + string list)) list \<Rightarrow> (string \<times> (exn + string list)) list \<Rightarrow>
     string langchain" where
  "stub_langchain files links =
     \<lparr>PyPDFLoader_load = lookup_outcome files,
      UnstructuredExcelLoader_load = lookup_outcome files,
      WebBaseLoader_init = (\<lambda>loader. None),
      WebBaseLoader_load = (\<lambda>loader. lookup_outcome links (web_path loader))\<rparr>"

definition empty_state :: "string module_state" where
  "empty_state = \<lparr>docs = [], stdout = []\<rparr>"

text \<open>
  A small world: two files that load, one that cannot be parsed, two links that load
  and one that does not.
\<close>

definition two_pages :: "string langchain" where
  "two_pages =
     stub_langchain
       [(''a.pdf'', Inr [''a1'', ''a2'']), (''b.XLSX'', Inr [''b1'']),
        (''broken.pdf'', Inl ''cannot parse'')]
       [(''http://one'', Inr [''one'']), (''http://bad'', Inl ''404''),
        (''http://two'', Inr [''two''])]"

text \<open>A world in which the hard-coded link of the module loads.\<close>

definition guide_online :: "string langchain" where
  "guide_online = stub_langchain [] [(guide_url, Inr [''AI agent evaluation guide''])]"

text \<open>
  A construction as a sequence of steps, one per file and then one per link, each giving
  documents or raising out of the constructor: a file step is the outcome of its
  loader; a link step raises when the constructor of the web loader does, and gives the
  documents of the link (none when its \<open>load\<close> raised) otherwise. The documents of
  the steps before the first one that raises, and the exception of that step.
\<close>

fun loaded_until_failure :: "(exn + 'doc list) list \<Rightarrow> 'doc list" where
  "loaded_until_failure [] = []"
| "loaded_until_failure (Inl e # rest) = []"
| "loaded_until_failure (Inr ds # rest) = ds @ loaded_until_failure rest"

fun first_failure :: "(exn + 'doc list) list \<Rightarrow> exn option" where
  "first_failure [] = None"
| "first_failure (Inl e # rest) = Some e"
| "first_failure (Inr ds # rest) = first_failure rest"

definition link_step :: "'doc langchain \<Rightarrow> string \<Rightarrow> exn + 'doc list" where
  "link_step env link =
     (case WebBaseLoader_init env (loader_for link) of
        Some e \<Rightarrow> Inl e
      | None \<Rightarrow> Inr (link_docs env link))"

definition construction_steps ::
  "'doc langchain \<Rightarrow> string list option \<Rightarrow> string list option \<Rightarrow> (exn + 'doc list) list" where
  "construction_steps env files links =
     map (file_outcome env) (list_or_empty files) @ map (link_step env) (list_or_empty links)"

text \<open>The small world with a web loader whose constructor rejects one link.\<close>

definition broken_constructor :: "string langchain" where
  "broken_constructor =
     two_pages\<lparr>WebBaseLoader_init :=
       (\<lambda>loader. if web_path loader = ''http://bad'' then Some ''invalid URL'' else None)\<rparr>"

section \<open>Auxiliary facts\<close>

subsection \<open>The scoring loop\<close>

lemma loop_body_returns:
  "(\<exists>st1. loop_body ar tc st m = Inr st1) \<longleftrightarrow> converts ar (score (score_metric m tc))"
  by (auto simp add: loop_body_def Let_def converts_def split: sum.splits)

lemma loop_body_Inr:
  assumes "loop_body ar tc st m = Inr st1"
  shows "results st1 = store_entry tc (results st) m"
    and "scores st1 = scores st @ numeric_floats ar [score (score_metric m tc)]"
  using assms
  by (auto simp add: loop_body_def Let_def store_entry_def numeric_floats_def
      split: sum.splits if_splits)

lemma score_loop_returns:
  "(\<exists>st1. score_loop ar tc st ms = Inr st1) \<longleftrightarrow>
     (\<forall>m \<in> set ms. converts ar (score (score_metric m tc)))"
proof (induction ms arbitrary: st)
  case Nil
  then show ?case by simp
next
  case (Cons m ms)
  show ?case
  proof (cases "loop_body ar tc st m")
    case (Inl e)
    then have "\<not> converts ar (score (score_metric m tc))"
      using loop_body_returns[of ar tc st m] by simp
    with Inl show ?thesis by simp
  next
    case (Inr st1)
    then have "converts ar (score (score_metric m tc))"
      using loop_body_returns[of ar tc st m] by auto
    with Inr Cons.IH[of st1] show ?thesis by simp
  qed
qed

lemma score_loop_Inr:
  "score_loop ar tc st ms = Inr st1 \<Longrightarrow>
     results st1 = foldl (store_entry tc) (results st) ms \<and>
     scores st1 = scores st @ numeric_floats ar (metric_scores ms tc)"
proof (induction ms arbitrary: st)
  case Nil
  then show ?case by (simp add: numeric_floats_def metric_scores_def)
next
  case (Cons m ms)
  from Cons.prems obtain st2 where b: "loop_body ar tc st m = Inr st2"
    and l: "score_loop ar tc st2 ms = Inr st1"
    by (auto split: sum.splits)
  have n: "numeric_floats ar (metric_scores (m # ms) tc) =
      numeric_floats ar [score (score_metric m tc)] @ numeric_floats ar (metric_scores ms tc)"
    by (simp add: numeric_floats_def metric_scores_def)
  from Cons.IH[OF l] loop_body_Inr[OF b] show ?case
    by (simp add: n)
qed

lemma update_fresh: "k \<notin> fst ` set al \<Longrightarrow> AList.update k v al = al @ [(k, v)]"
  by (induction al) auto

lemma foldl_results:
  "distinct (map mname ms) \<Longrightarrow> set (map mname ms) \<inter> fst ` set al = {} \<Longrightarrow>
   foldl (store_entry tc) al ms = al @ map (\<lambda>m. (mname m, score_metric m tc)) ms"
proof (induction ms arbitrary: al)
  case Nil
  then show ?case by simp
next
  case (Cons m ms)
  have r: "store_entry tc al m = al @ [(mname m, score_metric m tc)]"
    using Cons.prems(2) by (simp add: store_entry_def update_fresh)
  have "set (map mname ms) \<inter> fst ` set (store_entry tc al m) = {}"
    using Cons.prems unfolding r by auto
  with Cons.prems(1) have "foldl (store_entry tc) (store_entry tc al m) ms =
     store_entry tc al m @ map (\<lambda>m. (mname m, score_metric m tc)) ms"
    by (intro Cons.IH) simp_all
  then show ?case by (simp add: r)
qed

lemma foldl_keys:
  "fst ` set (foldl (store_entry tc) al ms) = fst ` set al \<union> mname ` set ms"
  by (induction ms arbitrary: al) (auto simp: store_entry_def dom_update)

lemma evaluate_returns:
  "(\<exists>rep. evaluate ar env self i r c = Inr rep) \<longleftrightarrow>
     (\<forall>m \<in> set (instantiate_metrics env self).
        converts ar (score (score_metric m (make_test_case i r c))))"
proof -
  let ?l = "score_loop ar (make_test_case i r c) \<lparr>results = [], scores = []\<rparr>
      (instantiate_metrics env self)"
  have "(\<exists>rep. evaluate ar env self i r c = Inr rep) \<longleftrightarrow> (\<exists>st1. ?l = Inr st1)"
    by (cases ?l) (simp_all add: evaluate_def Let_def)
  then show ?thesis by (simp only: score_loop_returns)
qed

lemma evaluate_Inr:
  assumes "evaluate ar env self i r c = Inr rep"
  shows "metrics rep = foldl (store_entry (make_test_case i r c)) [] (instantiate_metrics env self)"
    and "aggregate rep = aggregate_of ar
      (numeric_floats ar (metric_scores (instantiate_metrics env self) (make_test_case i r c)))"
proof -
  from assms obtain st1 where l: "score_loop ar (make_test_case i r c)
      \<lparr>results = [], scores = []\<rparr> (instantiate_metrics env self) = Inr st1"
    and rep: "rep = \<lparr>metrics = results st1, aggregate = aggregate_of ar (scores st1)\<rparr>"
    by (auto simp add: evaluate_def Let_def split: sum.splits)
  from score_loop_Inr[OF l] rep
  show "metrics rep = foldl (store_entry (make_test_case i r c)) [] (instantiate_metrics env self)"
    and "aggregate rep = aggregate_of ar
      (numeric_floats ar (metric_scores (instantiate_metrics env self) (make_test_case i r c)))"
    by simp_all
qed

lemma evaluate_metrics_distinct:
  assumes "evaluate ar env self i r c = Inr rep"
    and "distinct (map mname (instantiate_metrics env self))"
  shows "metrics rep =
     map (\<lambda>m. (mname m, score_metric m (make_test_case i r c))) (instantiate_metrics env self)"
  using foldl_results[OF assms(2), of "[]" "make_test_case i r c"] evaluate_Inr(1)[OF assms(1)]
  by simp

lemma map_of_entries:
  assumes "distinct (map mname ms)" "m \<in> set ms"
  shows "map_of (map (\<lambda>m. (mname m, f m)) ms) (mname m) = Some (f m)"
  using assms by (induction ms) (auto simp: rev_image_eqI)

lemma instantiate_metrics_eq:
  "instantiate_metrics env self =
     (case RAGASAnswerRelevancyMetric env (model self) (embeddings self) of
        Inr m \<Rightarrow> [m]
      | Inl _ \<Rightarrow> available (AnswerRelevancyMetric env (model self)))
     @ available (BiasMetric env (model self))
     @ available (HallucinationMetric env (model self))"
  by (simp add: instantiate_metrics_def instantiate_hallucination_def instantiate_bias_def
      instantiate_relevancy_def available_def split: sum.splits)

subsection \<open>The float arithmetic at the inputs used below\<close>

lemmas ieee_eval = round_double_def binade_def pow2_def round_half_even_def Let_def
  eval_nat_numeral

lemmas instantiate_defs = instantiate_metrics_def instantiate_hallucination_def
  instantiate_bias_def instantiate_relevancy_def stub_deepeval_def

lemma zero_point_eight_value:
  "zero_point_eight = Finite (3602879701896397 / 4503599627370496)"
  by (simp add: zero_point_eight_def float_literal_def ieee_eval)

lemmas aggregate_eval = aggregate_of_def ieee_def sum_doubles_def dsub_def ieee_eval

lemma aggregate_of_08: "aggregate_of (ieee v) [zero_point_eight] = Some zero_point_eight"
  unfolding zero_point_eight_value by (cases v) (simp_all add: aggregate_eval)

lemma aggregate_of_thirds:
  "aggregate_of (ieee v) [Finite 1, Finite 0, Finite 0] =
     Some (Finite (6004799503160661 / 18014398509481984))"
  by (cases v) (simp_all add: aggregate_eval)

lemma aggregate_of_half_one:
  "aggregate_of (ieee v) [Finite (1 / 2), Finite 1] = Some (Finite (3 / 4))"
  by (cases v) (simp_all add: aggregate_eval)

lemma float_huge:
  "float_of_int (ieee v) huge_int = Inl ''int too large to convert to float''"
  by (simp add: ieee_def double_of_int_def huge_int_def ieee_eval)

lemma float_one: "float_of_int (ieee v) 1 = Inr (Finite 1)"
  by (simp add: ieee_def double_of_int_def ieee_eval)

lemma instantiate_mixed:
  "instantiate_metrics mixed_deepeval stub_evaluator =
     [stub_metric ''Answer Relevancy (ragas)'' (Inr (PyFloat (Finite (1 / 2)), PyStr ''ok'')),
      stub_metric ''Bias'' (Inl ''no API key''),
      stub_metric ''Hallucination'' (Inr (PyInt 1, PyNone))]"
  by (simp add: instantiate_defs mixed_deepeval_def)

lemma evaluate_mixed:
  "evaluate (ieee v) mixed_deepeval stub_evaluator ''q'' ''a'' None =
     Inr \<lparr>metrics =
            [(''Answer Relevancy (ragas)'', \<lparr>score = PyFloat (Finite (1 / 2)), reason = PyStr ''ok''\<rparr>),
             (''Bias'', \<lparr>score = PyNone, reason = PyStr ''metric error: no API key''\<rparr>),
             (''Hallucination'', \<lparr>score = PyInt 1, reason = PyNone\<rparr>)],
          aggregate = Some (Finite (3 / 4))\<rparr>"
  by (simp add: evaluate_def instantiate_mixed loop_body_def score_metric_def stub_metric_def
      Let_def float_one aggregate_of_half_one)

lemma instantiate_thirds:
  "instantiate_metrics thirds_deepeval stub_evaluator =
     [stub_metric ''Answer Relevancy (ragas)'' (Inr (PyFloat (Finite 1), PyNone)),
      stub_metric ''Bias'' (Inr (PyFloat (Finite 0), PyNone)),
      stub_metric ''Hallucination'' (Inr (PyFloat (Finite 0), PyNone))]"
  by (simp add: instantiate_defs thirds_deepeval_def)

lemma evaluate_thirds:
  "evaluate (ieee v) thirds_deepeval stub_evaluator ''q'' ''a'' None =
     Inr \<lparr>metrics =
            [(''Answer Relevancy (ragas)'', \<lparr>score = PyFloat (Finite 1), reason = PyNone\<rparr>),
             (''Bias'', \<lparr>score = PyFloat (Finite 0), reason = PyNone\<rparr>),
             (''Hallucination'', \<lparr>score = PyFloat (Finite 0), reason = PyNone\<rparr>)],
          aggregate = Some (Finite (6004799503160661 / 18014398509481984))\<rparr>"
  by (simp add: evaluate_def instantiate_thirds loop_body_def score_metric_def stub_metric_def
      Let_def aggregate_of_thirds)

lemma evaluate_huge:
  "evaluate (ieee v) huge_deepeval stub_evaluator ''q'' ''a'' None =
     Inl ''int too large to convert to float''"
  by (simp add: evaluate_def instantiate_defs huge_deepeval_def loop_body_def score_metric_def
      stub_metric_def Let_def float_huge)

lemma evaluate_fallback:
  "evaluate (ieee v) fallback_deepeval stub_evaluator ''q'' ''a'' None =
     Inr \<lparr>metrics =
            [(''Answer Relevancy'', \<lparr>score = PyFloat (Finite (1 / 2)), reason = PyStr ''ok''\<rparr>),
             (''Hallucination'', \<lparr>score = PyInt 1, reason = PyNone\<rparr>)],
          aggregate = Some (Finite (3 / 4))\<rparr>"
  by (simp add: evaluate_def instantiate_defs fallback_deepeval_def loop_body_def score_metric_def
      stub_metric_def Let_def float_one aggregate_of_half_one)

subsection \<open>The loading loops\<close>

lemma endswith_lower_ci:
  assumes "map lower_char ext = ext"
  shows "endswith (lower p) ext = ends_ci p ext"
proof (cases "length ext \<le> length p")
  case False
  then show ?thesis by (simp add: endswith_def ends_ci_def lower_def)
next
  case True
  let ?t = "drop (length p - length ext) p"
  have "list_all2 same_letter ?t ext = (map lower_char ?t = map lower_char ext)"
    unfolding same_letter_def by (simp add: list_all2_conv_all_nth list_eq_iff_nth_eq)
  with True assms show ?thesis
    by (simp add: endswith_def ends_ci_def lower_def drop_map)
qed

lemma docs_extend_simps [simp]:
  "docs (docs_extend ds st) = docs st @ ds"
  "stdout (docs_extend ds st) = stdout st"
  "docs (py_print x st) = docs st"
  "stdout (py_print x st) = stdout st @ [x]"
  by (simp_all add: docs_extend_def py_print_def)

lemma endswith_lower_ext:
  "endswith (lower p) ''.pdf'' = ends_ci p ''.pdf''"
  "endswith (lower p) ''.xls'' = ends_ci p ''.xls''"
  "endswith (lower p) ''.xlsx'' = ends_ci p ''.xlsx''"
  by (rule endswith_lower_ci, simp add: lower_char_def)+

lemma docs_extend_Nil: "docs_extend [] st = st"
  by (simp add: docs_extend_def)

lemma docs_extend_twice: "docs_extend es (docs_extend ds st) = docs_extend (ds @ es) st"
  by (simp add: docs_extend_def)

lemma load_files_cons:
  "load_files env (p # rest) st =
     (case file_outcome env p of
        Inl e \<Rightarrow> (st, Some e)
      | Inr ds \<Rightarrow> load_files env rest (docs_extend ds st))"
  by (simp add: file_outcome_def endswith_lower_ext docs_extend_Nil split: sum.splits)

lemma load_files_ok:
  "(\<And>p. p \<in> set fs \<Longrightarrow> \<exists>ds. file_outcome env p = Inr ds) \<Longrightarrow>
   load_files env fs st = (docs_extend (concat (map (\<lambda>p. loaded_docs (file_outcome env p)) fs)) st, None)"
proof (induction fs arbitrary: st)
  case Nil
  then show ?case by (simp add: docs_extend_Nil)
next
  case (Cons p fs)
  obtain ds where ds: "file_outcome env p = Inr ds"
    using Cons.prems by auto
  have "load_files env fs (docs_extend ds st)
     = (docs_extend (concat (map (\<lambda>p. loaded_docs (file_outcome env p)) fs)) (docs_extend ds st), None)"
    using Cons.prems by (intro Cons.IH) simp
  then show ?case
    by (simp add: load_files_cons ds docs_extend_twice loaded_docs_def del: load_files.simps)
qed

lemma load_files_append:
  "load_files env (xs @ ys) st =
     (case load_files env xs st of
        (st1, None) \<Rightarrow> load_files env ys st1
      | (st1, Some e) \<Rightarrow> (st1, Some e))"
proof (induction xs arbitrary: st)
  case Nil
  then show ?case by simp
next
  case (Cons p xs)
  show ?case
    by (cases "file_outcome env p") (simp_all only: append_Cons load_files_cons sum.case Cons.IH prod.case option.case)
qed

lemma load_links_ok:
  "(\<And>l. l \<in> set links \<Longrightarrow> WebBaseLoader_init env (loader_for l) = None) \<Longrightarrow>
   load_links env links st =
     (\<lparr>docs = docs st @ concat (map (link_docs env) links),
       stdout = stdout st @ concat (map (link_output env) links)\<rparr>, None)"
proof (induction links arbitrary: st)
  case Nil
  then show ?case by simp
next
  case (Cons l links)
  have i: "WebBaseLoader_init env (loader_for l) = None" using Cons.prems by simp
  have ih: "\<And>st. load_links env links st =
     (\<lparr>docs = docs st @ concat (map (link_docs env) links),
       stdout = stdout st @ concat (map (link_output env) links)\<rparr>, None)"
    using Cons.prems by (intro Cons.IH) simp
  show ?case
  proof (cases "WebBaseLoader_load env (loader_for l)")
    case (Inl e)
    then have "link_docs env l = []"
      and "link_output env l = [PrintedLoader (loader_for l), PrintedText (''Failed to load '' @ l @ '': '' @ e)]"
      by (simp_all add: link_docs_def link_output_def loaded_docs_def)
    then show ?thesis using Inl by (simp add: i ih Let_def)
  next
    case (Inr ds)
    then have "link_docs env l = ds" and "link_output env l = [PrintedLoader (loader_for l)]"
      by (simp_all add: link_docs_def link_output_def loaded_docs_def)
    then show ?thesis using Inr by (simp add: i ih Let_def)
  qed
qed

lemma load_files_prefix: "prefix (docs st) (docs (fst (load_files env fs st)))"
proof (induction fs arbitrary: st)
  case Nil
  then show ?case by simp
next
  case (Cons p fs)
  show ?case
  proof (cases "file_outcome env p")
    case (Inl e)
    then show ?thesis by (simp only: load_files_cons sum.case fst_conv prefix_order.order_refl)
  next
    case (Inr ds)
    have "prefix (docs st) (docs (docs_extend ds st))" by simp
    also have "prefix \<dots> (docs (fst (load_files env fs (docs_extend ds st))))" by (rule Cons.IH)
    finally show ?thesis using Inr by (simp only: load_files_cons sum.case)
  qed
qed

lemma load_links_prefix: "prefix (docs st) (docs (fst (load_links env links st)))"
proof (induction links arbitrary: st)
  case Nil
  then show ?case by simp
next
  case (Cons l links)
  show ?case
  proof (cases "WebBaseLoader_init env (loader_for l)")
    case (Some e)
    then show ?thesis by simp
  next
    case None
    let ?st1 = "py_print (PrintedLoader (loader_for l)) st"
    show ?thesis
    proof (cases "WebBaseLoader_load env (loader_for l)")
      case (Inl e)
      have "prefix (docs st) (docs (fst (load_links env links
          (py_print (PrintedText (''Failed to load '' @ l @ '': '' @ e)) ?st1))))"
        using Cons.IH[of "py_print (PrintedText (''Failed to load '' @ l @ '': '' @ e)) ?st1"] by simp
      then show ?thesis using None Inl by (simp add: Let_def)
    next
      case (Inr ds)
      have "prefix (docs st) (docs (docs_extend ds ?st1))" by simp
      also have "prefix \<dots> (docs (fst (load_links env links (docs_extend ds ?st1))))" by (rule Cons.IH)
      finally show ?thesis using None Inr by (simp add: Let_def)
    qed
  qed
qed

lemma build_vectorstore_prefix: "prefix (docs st) (docs (fst (build_vectorstore env self st)))"
proof -
  obtain st1 r1 where f: "load_files env (rag_files self) st = (st1, r1)" by (cases "load_files env (rag_files self) st")
  obtain st2 r2 where l: "load_links env (rag_links self) st1 = (st2, r2)" by (cases "load_links env (rag_links self) st1")
  have p1: "prefix (docs st) (docs st1)" using load_files_prefix[of st env "rag_files self"] f by simp
  have p2: "prefix (docs st1) (docs st2)" using load_links_prefix[of st1 env "rag_links self"] l by simp
  from p1 p2 have "prefix (docs st) (docs st2)" by (rule prefix_order.order_trans)
  with p1 f l show ?thesis
    by (cases r1; cases r2) (simp_all add: build_vectorstore_def)
qed

lemma document_loader_init_prefix:
  "prefix (docs st) (docs (fst (document_loader_init env files links st)))"
proof -
  let ?self = "\<lparr>rag_files = list_or_empty files, rag_links = list_or_empty links\<rparr>"
  let ?st1 = "py_print (PrintedArgs (rag_files ?self) (rag_links ?self)) st"
  have "prefix (docs st) (docs (fst (build_vectorstore env ?self ?st1)))"
    using build_vectorstore_prefix[of ?st1 env ?self] by simp
  then show ?thesis
    by (auto simp add: document_loader_init_def Let_def split: prod.splits sum.splits)
qed

lemma document_loader_init_instance:
  "snd (document_loader_init env files links st) = Inr self \<Longrightarrow>
   self = \<lparr>rag_files = list_or_empty files, rag_links = list_or_empty links\<rparr>"
  by (auto simp add: document_loader_init_def Let_def split: prod.splits sum.splits if_splits)

lemma list_or_empty_simps [simp]:
  "list_or_empty None = []" "list_or_empty (Some xs) = xs"
  by (simp_all add: list_or_empty_def)

lemma load_files_ok':
  assumes "\<forall>p \<in> set fs. \<exists>ds. file_outcome env p = Inr ds"
  shows "load_files env fs st = (docs_extend (concat (map (file_docs env) fs)) st, None)"
proof -
  have "(\<lambda>p. loaded_docs (file_outcome env p)) = file_docs env"
    by (simp add: fun_eq_iff file_docs_def)
  with load_files_ok[of fs env st] assms show ?thesis by simp
qed

lemma load_files_fails:
  assumes pre: "\<forall>p \<in> set pre. \<exists>ds. file_outcome env p = Inr ds"
    and f: "file_outcome env f = Inl e"
  shows "load_files env (pre @ f # post) st =
           (docs_extend (concat (map (file_docs env) pre)) st, Some e)"
proof -
  have "load_files env (f # post) st' = (st', Some e)" for st'
    by (simp only: load_files_cons f sum.case)
  then show ?thesis
    by (simp add: load_files_append load_files_ok'[OF pre] del: load_files.simps)
qed

lemma load_links_ok':
  assumes "\<forall>l \<in> set links. WebBaseLoader_init env (loader_for l) = None"
  shows "load_links env links st =
     (\<lparr>docs = docs st @ concat (map (link_docs env) links),
       stdout = stdout st @ concat (map (link_output env) links)\<rparr>, None)"
  using load_links_ok[of links env st] assms by simp

lemma document_loader_init_ok:
  assumes fs: "\<forall>p \<in> set (list_or_empty files). \<exists>ds. file_outcome env p = Inr ds"
    and ls: "\<forall>l \<in> set (list_or_empty links). WebBaseLoader_init env (loader_for l) = None"
    and ne: "list_or_empty files \<noteq> [] \<or> list_or_empty links \<noteq> []"
  shows "document_loader_init env files links st =
     (\<lparr>docs = docs st @ concat (map (file_docs env) (list_or_empty files))
                @ concat (map (link_docs env) (list_or_empty links)),
       stdout = stdout st @ [PrintedArgs (list_or_empty files) (list_or_empty links)]
                @ concat (map (link_output env) (list_or_empty links))
                @ [PrintedDocs (docs st @ concat (map (file_docs env) (list_or_empty files))
                @ concat (map (link_docs env) (list_or_empty links)))]\<rparr>,
      Inr \<lparr>rag_files = list_or_empty files, rag_links = list_or_empty links\<rparr>)"
  using ne
  by (simp add: document_loader_init_def build_vectorstore_def Let_def
      load_files_ok'[OF fs] load_links_ok'[OF ls] py_print_def)

lemma document_loader_init_nothing:
  "list_or_empty files = [] \<Longrightarrow> list_or_empty links = [] \<Longrightarrow>
   document_loader_init env files links st = (st, Inr \<lparr>rag_files = [], rag_links = []\<rparr>)"
  by (simp add: document_loader_init_def)

lemma document_loader_init_file_fails:
  assumes pre: "\<forall>p \<in> set pre. \<exists>ds. file_outcome env p = Inr ds"
    and f: "file_outcome env f = Inl e"
  shows "document_loader_init env (Some (pre @ f # post)) links st =
     (\<lparr>docs = docs st @ concat (map (file_docs env) pre),
       stdout = stdout st @ [PrintedArgs (pre @ f # post) (list_or_empty links)]\<rparr>, Inl e)"
  by (simp add: document_loader_init_def build_vectorstore_def Let_def
      load_files_fails[OF pre f] py_print_def docs_extend_def del: load_files.simps)

lemma unsupported_outcome:
  "\<not> ends_ci p ''.pdf'' \<Longrightarrow> \<not> ends_ci p ''.xls'' \<Longrightarrow> \<not> ends_ci p ''.xlsx'' \<Longrightarrow>
   file_outcome env p = Inr []"
  by (simp add: file_outcome_def)

lemma concat_all_Nil: "(\<And>x. x \<in> set xs \<Longrightarrow> f x = []) \<Longrightarrow> concat (map f xs) = []"
  by (induction xs) simp_all

lemmas stub_world = two_pages_def stub_langchain_def lookup_outcome_def loader_for_def

lemmas run_defs = document_loader_init_def build_vectorstore_def Let_def endswith_def lower_def
  lower_char_def py_print_def docs_extend_def list_or_empty_def

lemma load_files_steps:
  "load_files env fs st =
     (docs_extend (loaded_until_failure (map (file_outcome env) fs)) st,
      first_failure (map (file_outcome env) fs))"
proof (induction fs arbitrary: st)
  case Nil
  then show ?case by (simp add: docs_extend_Nil)
next
  case (Cons p fs)
  show ?case
    by (cases "file_outcome env p")
      (simp_all add: load_files_cons Cons.IH docs_extend_Nil docs_extend_twice del: load_files.simps)
qed

lemma load_links_steps:
  "docs (fst (load_links env ls st)) = docs st @ loaded_until_failure (map (link_step env) ls)"
  "snd (load_links env ls st) = first_failure (map (link_step env) ls)"
proof (induction ls arbitrary: st)
  case Nil
  { case 1 show ?case by simp }
  { case 2 show ?case by simp }
next
  case (Cons l ls)
  { case 1 show ?case
      by (cases "WebBaseLoader_init env (loader_for l)"; cases "WebBaseLoader_load env (loader_for l)")
        (simp_all add: Cons.IH link_step_def link_docs_def loaded_docs_def Let_def) }
  { case 2 show ?case
      by (cases "WebBaseLoader_init env (loader_for l)"; cases "WebBaseLoader_load env (loader_for l)")
        (simp_all add: Cons.IH link_step_def link_docs_def loaded_docs_def Let_def) }
qed

lemma loaded_until_failure_append:
  "loaded_until_failure (xs @ ys) =
     (case first_failure xs of
        None \<Rightarrow> loaded_until_failure xs @ loaded_until_failure ys
      | Some e \<Rightarrow> loaded_until_failure xs)"
  by (induction xs rule: loaded_until_failure.induct) (simp_all split: option.splits)

lemma loaded_until_failure_ok:
  "first_failure xs = None \<Longrightarrow> loaded_until_failure xs = concat (map loaded_docs xs)"
  by (induction xs rule: loaded_until_failure.induct) (simp_all add: loaded_docs_def)

lemma first_failure_None_iff:
  "first_failure xs = None \<longleftrightarrow> (\<forall>x \<in> set xs. \<exists>ds. x = Inr ds)"
  by (induction xs rule: first_failure.induct) auto

lemma build_vectorstore_docs:
  "docs (fst (build_vectorstore env self st)) =
     docs st @ loaded_until_failure
       (map (file_outcome env) (rag_files self) @ map (link_step env) (rag_links self))"
proof (cases "first_failure (map (file_outcome env) (rag_files self))")
  case None
  obtain st2 r2 where l: "load_links env (rag_links self)
      (docs_extend (loaded_until_failure (map (file_outcome env) (rag_files self))) st) = (st2, r2)"
    by (cases "load_links env (rag_links self)
      (docs_extend (loaded_until_failure (map (file_outcome env) (rag_files self))) st)")
  have d: "docs st2 = (docs st @ loaded_until_failure (map (file_outcome env) (rag_files self)))
      @ loaded_until_failure (map (link_step env) (rag_links self))"
    using load_links_steps(1)[of env "rag_links self"
        "docs_extend (loaded_until_failure (map (file_outcome env) (rag_files self))) st"] l
    by simp
  show ?thesis
    using None l d
    by (cases r2) (simp_all add: build_vectorstore_def load_files_steps loaded_until_failure_append
        del: load_files.simps)
next
  case (Some e)
  then show ?thesis
    by (simp add: build_vectorstore_def load_files_steps loaded_until_failure_append
        del: load_files.simps)
qed

lemma document_loader_init_docs:
  "docs (fst (document_loader_init env files links st)) =
     docs st @ loaded_until_failure (construction_steps env files links)"
proof (cases "list_or_empty files = [] \<and> list_or_empty links = []")
  case True
  then show ?thesis
    by (simp add: document_loader_init_nothing construction_steps_def)
next
  case False
  let ?self = "\<lparr>rag_files = list_or_empty files, rag_links = list_or_empty links\<rparr>"
  let ?st1 = "py_print (PrintedArgs (rag_files ?self) (rag_links ?self)) st"
  have "docs (fst (build_vectorstore env ?self ?st1)) =
      docs st @ loaded_until_failure (construction_steps env files links)"
    using build_vectorstore_docs[of env ?self ?st1] by (simp add: construction_steps_def)
  with False show ?thesis
    by (auto simp add: document_loader_init_def Let_def split: prod.splits sum.splits)
qed

lemmas broken_world = broken_constructor_def stub_world

section \<open>Properties of the evaluation adapter\<close>

text \<open>
  C1, as amended. \<open>evaluate\<close> returns a report unless \<open>float\<close> raises on a numeric
  score (an integer beyond the range of a float). In every report it returns, the
  aggregate is the mean, as float arithmetic computes it (\<open>sum(scores) / len(scores)\<close>),
  of the numeric scores among the scores the instantiated metrics produced (a failed
  scoring gives the null score and is skipped with every other non-numeric score), and
  it is null when no score is numeric. When the metrics have distinct names, these are
  exactly the scores stored in the returned mapping.
\<close>

theorem aggregate_is_float_mean_of_numeric_scores:
  "((\<exists>rep. evaluate ar env self i r c = Inr rep) \<longleftrightarrow>
      (\<forall>m \<in> set (instantiate_metrics env self).
         converts ar (score (score_metric m (make_test_case i r c)))))
   \<and> (\<forall>rep. evaluate ar env self i r c = Inr rep \<longrightarrow>
        aggregate rep =
          float_mean ar (numeric_floats ar
            (metric_scores (instantiate_metrics env self) (make_test_case i r c)))
        \<and> (distinct (map mname (instantiate_metrics env self)) \<longrightarrow>
             aggregate rep = float_mean ar (numeric_floats ar (entry_scores (metrics rep)))))"
proof -
  let ?ms = "instantiate_metrics env self" and ?tc = "make_test_case i r c"
  have a: "aggregate rep = float_mean ar (numeric_floats ar (metric_scores ?ms ?tc))"
    if "evaluate ar env self i r c = Inr rep" for rep
    using evaluate_Inr(2)[OF that] by (simp add: aggregate_of_def float_mean_def)
  have b: "entry_scores (metrics rep) = metric_scores ?ms ?tc"
    if "evaluate ar env self i r c = Inr rep" "distinct (map mname ?ms)" for rep
    by (simp add: evaluate_metrics_distinct[OF that] metric_scores_def entry_scores_def comp_def)
  from a b evaluate_returns[of ar env self i r c] show ?thesis by simp
qed

theorem aggregate_is_float_mean_of_numeric_scores_witness:
  "evaluate (ieee False) mixed_deepeval stub_evaluator ''q'' ''a'' None =
     Inr \<lparr>metrics =
            [(''Answer Relevancy (ragas)'', \<lparr>score = PyFloat (Finite (1 / 2)), reason = PyStr ''ok''\<rparr>),
             (''Bias'', \<lparr>score = PyNone, reason = PyStr ''metric error: no API key''\<rparr>),
             (''Hallucination'', \<lparr>score = PyInt 1, reason = PyNone\<rparr>)],
          aggregate = Some (Finite (3 / 4))\<rparr>
   \<and> distinct (map mname (instantiate_metrics mixed_deepeval stub_evaluator))
   \<and> float_mean (ieee False) (numeric_floats (ieee False)
        [PyFloat (Finite (1 / 2)), PyNone, PyInt 1]) = Some (Finite (3 / 4))"
proof -
  let ?rep = "\<lparr>metrics =
            [(''Answer Relevancy (ragas)'', \<lparr>score = PyFloat (Finite (1 / 2)), reason = PyStr ''ok''\<rparr>),
             (''Bias'', \<lparr>score = PyNone, reason = PyStr ''metric error: no API key''\<rparr>),
             (''Hallucination'', \<lparr>score = PyInt 1, reason = PyNone\<rparr>)],
          aggregate = Some (Finite (3 / 4))\<rparr>"
  have e: "evaluate (ieee False) mixed_deepeval stub_evaluator ''q'' ''a'' None = Inr ?rep"
    by (rule evaluate_mixed)
  have d: "distinct (map mname (instantiate_metrics mixed_deepeval stub_evaluator))"
    by (simp add: instantiate_mixed stub_metric_def)
  note t = aggregate_is_float_mean_of_numeric_scores
    [of "ieee False" mixed_deepeval stub_evaluator "''q''" "''a''" None, THEN conjunct2]
  from t e d have "aggregate ?rep =
      float_mean (ieee False) (numeric_floats (ieee False) (entry_scores (metrics ?rep)))"
    by blast
  then have "float_mean (ieee False) (numeric_floats (ieee False)
        [PyFloat (Finite (1 / 2)), PyNone, PyInt 1]) = Some (Finite (3 / 4))"
    by (simp add: entry_scores_def)
  with e d show ?thesis by blast
qed

text \<open>
  C1, as stated, fails. The aggregate is a float and the operations round: for the
  scores 1.0, 0.0 and 0.0 it is the float nearest to one third, not one third, under
  either summation of CPython. And a call need not return an aggregate at all: for a
  metric whose score is the integer \<open>10 ** 400\<close>, \<open>float(score)\<close> raises
  \<open>OverflowError\<close> outside the \<open>try\<close> and \<open>evaluate\<close> raises with it.
\<close>

theorem aggregate_is_not_the_exact_mean_counterexample:
  "evaluate (ieee False) thirds_deepeval stub_evaluator ''q'' ''a'' None =
     Inr \<lparr>metrics =
            [(''Answer Relevancy (ragas)'', \<lparr>score = PyFloat (Finite 1), reason = PyNone\<rparr>),
             (''Bias'', \<lparr>score = PyFloat (Finite 0), reason = PyNone\<rparr>),
             (''Hallucination'', \<lparr>score = PyFloat (Finite 0), reason = PyNone\<rparr>)],
          aggregate = Some (Finite (6004799503160661 / 18014398509481984))\<rparr>
   \<and> evaluate (ieee True) thirds_deepeval stub_evaluator ''q'' ''a'' None =
       evaluate (ieee False) thirds_deepeval stub_evaluator ''q'' ''a'' None
   \<and> (6004799503160661 / 18014398509481984 :: real) \<noteq> (1 + 0 + 0) / 3
   \<and> evaluate (ieee False) huge_deepeval stub_evaluator ''q'' ''a'' None =
       Inl ''int too large to convert to float''
   \<and> evaluate (ieee True) huge_deepeval stub_evaluator ''q'' ''a'' None =
       Inl ''int too large to convert to float''"
proof -
  have "(6004799503160661 / 18014398509481984 :: real) \<noteq> (1 + 0 + 0) / 3"
    by simp
  then show ?thesis
    by (simp only: evaluate_thirds evaluate_huge simp_thms)
qed

text \<open>
  C2. When the scoring call of an instantiated metric raises, the null score recorded for
  it never makes \<open>float\<close> raise, so \<open>evaluate\<close> returns its report exactly when it would
  for the other metrics alone (only \<open>float\<close> on a numeric score can raise); in the
  report the entry of that metric has the null score and the reason
  \<open>"metric error: "\<close> followed by the error text, a non-empty string that ends with the
  error text, and the entry of every other instantiated metric is the one its own
  scoring gives. Entries are keyed by metric name, so the statement is for metrics with
  distinct names, as those of deepeval are.
\<close>

theorem scoring_failure_is_recorded:
  assumes inst: "m \<in> set (instantiate_metrics env self)"
    and names: "distinct (map mname (instantiate_metrics env self))"
    and raises: "measure m (make_test_case i r c) = Inl e"
  shows "converts ar (score (score_metric m (make_test_case i r c)))
       \<and> ((\<exists>rep. evaluate ar env self i r c = Inr rep) \<longleftrightarrow>
            (\<forall>m' \<in> set (instantiate_metrics env self).
               converts ar (score (score_metric m' (make_test_case i r c)))))
       \<and> (\<forall>rep. evaluate ar env self i r c = Inr rep \<longrightarrow>
            map_of (metrics rep) (mname m) =
              Some \<lparr>score = PyNone, reason = PyStr (''metric error: '' @ e)\<rparr>
            \<and> (\<forall>m' \<in> set (instantiate_metrics env self). m' \<noteq> m \<longrightarrow>
                 map_of (metrics rep) (mname m') =
                   (case measure m' (make_test_case i r c) of
                      Inr (s, rsn) \<Rightarrow> Some \<lparr>score = s, reason = rsn\<rparr>
                    | Inl e' \<Rightarrow>
                        Some \<lparr>score = PyNone, reason = PyStr (''metric error: '' @ e')\<rparr>)))
       \<and> ''metric error: '' @ e \<noteq> [] \<and> suffix e (''metric error: '' @ e)"
proof -
  let ?tc = "make_test_case i r c"
  have own_score: "score_metric m ?tc = \<lparr>score = PyNone, reason = PyStr (''metric error: '' @ e)\<rparr>"
    using raises by (simp add: score_metric_def)
  then have conv: "converts ar (score (score_metric m ?tc))"
    by (simp add: converts_def)
  have entry: "map_of (metrics rep) (mname x) = Some (score_metric x ?tc)"
    if "evaluate ar env self i r c = Inr rep" "x \<in> set (instantiate_metrics env self)" for rep x
    unfolding evaluate_metrics_distinct[OF that(1) names] using names that(2)
    by (rule map_of_entries)
  have own: "map_of (metrics rep) (mname m) =
      Some \<lparr>score = PyNone, reason = PyStr (''metric error: '' @ e)\<rparr>"
    if "evaluate ar env self i r c = Inr rep" for rep
    using entry[OF that inst] own_score by simp
  have others: "map_of (metrics rep) (mname m') =
      (case measure m' ?tc of
         Inr (s, rsn) \<Rightarrow> Some \<lparr>score = s, reason = rsn\<rparr>
       | Inl e' \<Rightarrow> Some \<lparr>score = PyNone, reason = PyStr (''metric error: '' @ e')\<rparr>)"
    if "evaluate ar env self i r c = Inr rep" "m' \<in> set (instantiate_metrics env self)" for rep m'
    using entry[OF that] by (simp add: score_metric_def split: sum.splits prod.splits)
  from conv own others evaluate_returns[of ar env self i r c] show ?thesis
    by (simp add: suffix_def)
qed

theorem scoring_failure_is_recorded_witness:
  "stub_metric ''Bias'' (Inl ''no API key'') \<in> set (instantiate_metrics mixed_deepeval stub_evaluator)
   \<and> distinct (map mname (instantiate_metrics mixed_deepeval stub_evaluator))
   \<and> measure (stub_metric ''Bias'' (Inl ''no API key'') :: double metric)
        (make_test_case ''q'' ''a'' None) = Inl ''no API key''
   \<and> evaluate (ieee False) mixed_deepeval stub_evaluator ''q'' ''a'' None =
        Inr \<lparr>metrics =
            [(''Answer Relevancy (ragas)'', \<lparr>score = PyFloat (Finite (1 / 2)), reason = PyStr ''ok''\<rparr>),
             (''Bias'', \<lparr>score = PyNone, reason = PyStr ''metric error: no API key''\<rparr>),
             (''Hallucination'', \<lparr>score = PyInt 1, reason = PyNone\<rparr>)],
          aggregate = Some (Finite (3 / 4))\<rparr>
   \<and> map_of
        [(''Answer Relevancy (ragas)'', \<lparr>score = PyFloat (Finite (1 / 2)), reason = PyStr ''ok''\<rparr>),
         (''Bias'', \<lparr>score = PyNone, reason = PyStr ''metric error: no API key''\<rparr>),
         (''Hallucination'', \<lparr>score = PyInt 1, reason = PyNone\<rparr>)] ''Bias'' =
        Some \<lparr>score = PyNone, reason = PyStr ''metric error: no API key''\<rparr>"
proof -
  let ?b = "stub_metric ''Bias'' (Inl ''no API key'') :: double metric"
  let ?rep = "\<lparr>metrics =
            [(''Answer Relevancy (ragas)'', \<lparr>score = PyFloat (Finite (1 / 2)), reason = PyStr ''ok''\<rparr>),
             (''Bias'', \<lparr>score = PyNone, reason = PyStr ''metric error: no API key''\<rparr>),
             (''Hallucination'', \<lparr>score = PyInt 1, reason = PyNone\<rparr>)],
          aggregate = Some (Finite (3 / 4))\<rparr>"
  have 1: "?b \<in> set (instantiate_metrics mixed_deepeval stub_evaluator)"
    by (simp add: instantiate_mixed)
  have 2: "distinct (map mname (instantiate_metrics mixed_deepeval stub_evaluator))"
    by (simp add: instantiate_mixed stub_metric_def)
  have 3: "measure ?b (make_test_case ''q'' ''a'' None) = Inl ''no API key''"
    by (simp add: stub_metric_def)
  have e: "evaluate (ieee False) mixed_deepeval stub_evaluator ''q'' ''a'' None = Inr ?rep"
    by (rule evaluate_mixed)
  note t = scoring_failure_is_recorded[OF 1 2 3, of "ieee False",
      THEN conjunct2, THEN conjunct2, THEN conjunct1]
  from t e have "map_of (metrics ?rep) (mname ?b) =
      Some \<lparr>score = PyNone, reason = PyStr (''metric error: '' @ ''no API key'')\<rparr>"
    by blast
  then have own: "map_of
        [(''Answer Relevancy (ragas)'', \<lparr>score = PyFloat (Finite (1 / 2)), reason = PyStr ''ok''\<rparr>),
         (''Bias'', \<lparr>score = PyNone, reason = PyStr ''metric error: no API key''\<rparr>),
         (''Hallucination'', \<lparr>score = PyInt 1, reason = PyNone\<rparr>)] ''Bias'' =
        Some \<lparr>score = PyNone, reason = PyStr ''metric error: no API key''\<rparr>"
    by (simp add: stub_metric_def)
  from 1 2 3 e own show ?thesis by blast
qed

text \<open>
  C3. \<open>evaluate\<close> with the context omitted returns what it returns with the empty
  context.
\<close>

theorem omitted_context_is_empty_context:
  "evaluate ar env self input_text response_text None =
   evaluate ar env self input_text response_text (Some [])"
proof -
  have "make_test_case input_text response_text None =
      make_test_case input_text response_text (Some [])"
    by (simp add: make_test_case_def context_or_empty_def)
  then show ?thesis
    by (simp add: evaluate_def)
qed

theorem omitted_context_is_empty_context_witness:
  "evaluate (ieee False) mixed_deepeval stub_evaluator ''q'' ''a'' None =
     evaluate (ieee False) mixed_deepeval stub_evaluator ''q'' ''a'' (Some [])
   \<and> tc_context (make_test_case ''q'' ''a'' None) = []"
  using omitted_context_is_empty_context[of "ieee False" mixed_deepeval stub_evaluator "''q''" "''a''"]
  by (simp add: make_test_case_def context_or_empty_def)

text \<open>
  C9. The metrics are instantiated in a fixed order: the RAGAS answer-relevancy metric,
  or the generic answer-relevancy metric when the RAGAS one raises, then the bias
  metric, then the hallucination metric; a constructor that raises contributes nothing
  and the others are still tried. Every instantiated metric is scored: in the report
  (returned unless \<open>float\<close> raises on a numeric score) the keys of the mapping are the
  names of the instantiated metrics, and with distinct names the mapping lists them in
  that order, each with its own result.
\<close>

theorem metrics_instantiated_in_order:
  "instantiate_metrics env self =
     (case RAGASAnswerRelevancyMetric env (model self) (embeddings self) of
        Inr m \<Rightarrow> [m]
      | Inl _ \<Rightarrow> available (AnswerRelevancyMetric env (model self)))
     @ available (BiasMetric env (model self))
     @ available (HallucinationMetric env (model self))
   \<and> ((\<exists>rep. evaluate ar env self i r c = Inr rep) \<longleftrightarrow>
        (\<forall>m \<in> set (instantiate_metrics env self).
           converts ar (score (score_metric m (make_test_case i r c)))))
   \<and> (\<forall>rep. evaluate ar env self i r c = Inr rep \<longrightarrow>
        fst ` set (metrics rep) = mname ` set (instantiate_metrics env self)
        \<and> (distinct (map mname (instantiate_metrics env self)) \<longrightarrow>
             metrics rep =
               map (\<lambda>m. (mname m, score_metric m (make_test_case i r c)))
                 (instantiate_metrics env self)))"
proof -
  have keys: "fst ` set (metrics rep) = mname ` set (instantiate_metrics env self)"
    if "evaluate ar env self i r c = Inr rep" for rep
    by (simp add: evaluate_Inr(1)[OF that] foldl_keys)
  show ?thesis
    using instantiate_metrics_eq[of env self] keys evaluate_metrics_distinct[of ar env self i r c]
      evaluate_returns[of ar env self i r c]
    by blast
qed

theorem metrics_instantiated_in_order_witness:
  "instantiate_metrics fallback_deepeval stub_evaluator =
     [stub_metric ''Answer Relevancy'' (Inr (PyFloat (Finite (1 / 2)), PyStr ''ok'')),
      stub_metric ''Hallucination'' (Inr (PyInt 1, PyNone))]
   \<and> distinct (map mname (instantiate_metrics fallback_deepeval stub_evaluator))
   \<and> evaluate (ieee False) fallback_deepeval stub_evaluator ''q'' ''a'' None =
       Inr \<lparr>metrics =
            [(''Answer Relevancy'', \<lparr>score = PyFloat (Finite (1 / 2)), reason = PyStr ''ok''\<rparr>),
             (''Hallucination'', \<lparr>score = PyInt 1, reason = PyNone\<rparr>)],
          aggregate = Some (Finite (3 / 4))\<rparr>
   \<and> map (\<lambda>m. (mname m, score_metric m (make_test_case ''q'' ''a'' None)))
         (instantiate_metrics fallback_deepeval stub_evaluator) =
       [(''Answer Relevancy'', \<lparr>score = PyFloat (Finite (1 / 2)), reason = PyStr ''ok''\<rparr>),
        (''Hallucination'', \<lparr>score = PyInt 1, reason = PyNone\<rparr>)]"
proof -
  let ?rep = "\<lparr>metrics =
            [(''Answer Relevancy'', \<lparr>score = PyFloat (Finite (1 / 2)), reason = PyStr ''ok''\<rparr>),
             (''Hallucination'', \<lparr>score = PyInt 1, reason = PyNone\<rparr>)],
          aggregate = Some (Finite (3 / 4))\<rparr>"
  note t = metrics_instantiated_in_order[of fallback_deepeval stub_evaluator "ieee False"
      "''q''" "''a''" None]
  from t have l: "instantiate_metrics fallback_deepeval stub_evaluator =
     [stub_metric ''Answer Relevancy'' (Inr (PyFloat (Finite (1 / 2)), PyStr ''ok'')),
      stub_metric ''Hallucination'' (Inr (PyInt 1, PyNone))]"
    by (simp add: fallback_deepeval_def stub_deepeval_def available_def)
  then have d: "distinct (map mname (instantiate_metrics fallback_deepeval stub_evaluator))"
    by (simp add: stub_metric_def)
  have e: "evaluate (ieee False) fallback_deepeval stub_evaluator ''q'' ''a'' None = Inr ?rep"
    by (rule evaluate_fallback)
  from t[THEN conjunct2, THEN conjunct2] e d have "metrics ?rep =
          map (\<lambda>m. (mname m, score_metric m (make_test_case ''q'' ''a'' None)))
            (instantiate_metrics fallback_deepeval stub_evaluator)"
    by blast
  then have m: "map (\<lambda>m. (mname m, score_metric m (make_test_case ''q'' ''a'' None)))
         (instantiate_metrics fallback_deepeval stub_evaluator) =
       [(''Answer Relevancy'', \<lparr>score = PyFloat (Finite (1 / 2)), reason = PyStr ''ok''\<rparr>),
        (''Hallucination'', \<lparr>score = PyInt 1, reason = PyNone\<rparr>)]"
    by simp
  from l d e m show ?thesis by blast
qed

text \<open>
  C10, as amended. When \<open>evaluate\<close> is called with no context, the relevancy metric (the
  RAGAS one or its fallback) scores 0.8, and the bias and hallucination metrics both
  fail to instantiate, the report has the single entry of that metric, under the name
  the metric itself reports, with score 0.8 and the metric's reason, and the aggregate
  0.8 (under either summation of CPython).
\<close>

theorem example_key_is_the_metric_name:
  assumes rel: "instantiate_relevancy env self [] = [m]"
    and sc: "measure m (make_test_case i r None) = Inr (PyFloat zero_point_eight, rsn)"
    and nb: "BiasMetric env (model self) = Inl eb"
    and nh: "HallucinationMetric env (model self) = Inl eh"
  shows "evaluate (ieee compensated) env self i r None =
           Inr \<lparr>metrics = [(mname m, \<lparr>score = PyFloat zero_point_eight, reason = rsn\<rparr>)],
                aggregate = Some zero_point_eight\<rparr>"
proof -
  have ms: "instantiate_metrics env self = [m]"
    by (simp add: instantiate_metrics_def instantiate_hallucination_def instantiate_bias_def rel nb nh)
  have s: "score_metric m (make_test_case i r None) =
      \<lparr>score = PyFloat zero_point_eight, reason = rsn\<rparr>"
    by (simp add: score_metric_def sc)
  have a: "aggregate_of (ieee compensated) [zero_point_eight] = Some zero_point_eight"
    by (rule aggregate_of_08)
  show ?thesis
    by (simp add: evaluate_def ms loop_body_def s Let_def a)
qed

theorem example_key_is_the_metric_name_witness:
  "instantiate_relevancy (ragas_only_deepeval ''relevancy'') stub_evaluator [] =
      [stub_metric ''relevancy'' (Inr (PyFloat zero_point_eight, PyStr ''relevant''))]
   \<and> measure (stub_metric ''relevancy'' (Inr (PyFloat zero_point_eight, PyStr ''relevant'')))
        (make_test_case ''What is X?'' ''X is ...'' None) =
       Inr (PyFloat zero_point_eight, PyStr ''relevant'')
   \<and> BiasMetric (ragas_only_deepeval ''relevancy'') (model stub_evaluator) = Inl ''bias unavailable''
   \<and> HallucinationMetric (ragas_only_deepeval ''relevancy'') (model stub_evaluator) =
       Inl ''hallucination unavailable''
   \<and> evaluate (ieee False) (ragas_only_deepeval ''relevancy'') stub_evaluator
        ''What is X?'' ''X is ...'' None =
        Inr \<lparr>metrics = [(''relevancy'',
                \<lparr>score = PyFloat zero_point_eight, reason = PyStr ''relevant''\<rparr>)],
             aggregate = Some zero_point_eight\<rparr>"
proof -
  let ?m = "stub_metric ''relevancy'' (Inr (PyFloat zero_point_eight, PyStr ''relevant''))"
  have 1: "instantiate_relevancy (ragas_only_deepeval ''relevancy'') stub_evaluator [] = [?m]"
    by (simp add: instantiate_relevancy_def ragas_only_deepeval_def stub_deepeval_def)
  have 2: "measure ?m (make_test_case ''What is X?'' ''X is ...'' None) =
      Inr (PyFloat zero_point_eight, PyStr ''relevant'')"
    by (simp add: stub_metric_def)
  have 3: "BiasMetric (ragas_only_deepeval ''relevancy'') (model stub_evaluator) = Inl ''bias unavailable''"
    by (simp add: ragas_only_deepeval_def stub_deepeval_def)
  have 4: "HallucinationMetric (ragas_only_deepeval ''relevancy'') (model stub_evaluator) =
      Inl ''hallucination unavailable''"
    by (simp add: ragas_only_deepeval_def stub_deepeval_def)
  have n: "mname ?m = ''relevancy''" by (simp add: stub_metric_def)
  from example_key_is_the_metric_name[OF 1 2 3 4, of False] 1 2 3 4 show ?thesis
    unfolding n by blast
qed

text \<open>
  C10, as stated, fails: the key is not the word \<open>"relevancy"\<close> but the name the metric
  reports. For a relevancy metric named \<open>"Answer Relevancy (ragas)"\<close> that scores 0.8,
  with bias and hallucination failing to instantiate, the report has no entry under
  \<open>"relevancy"\<close>.
\<close>

theorem example_key_relevancy_counterexample:
  "instantiate_relevancy (ragas_only_deepeval ''Answer Relevancy (ragas)'') stub_evaluator [] =
      [stub_metric ''Answer Relevancy (ragas)''
         (Inr (PyFloat zero_point_eight, PyStr ''relevant''))]
   \<and> measure (stub_metric ''Answer Relevancy (ragas)''
         (Inr (PyFloat zero_point_eight, PyStr ''relevant'')))
        (make_test_case ''What is X?'' ''X is ...'' None) =
       Inr (PyFloat zero_point_eight, PyStr ''relevant'')
   \<and> BiasMetric (ragas_only_deepeval ''Answer Relevancy (ragas)'') (model stub_evaluator) =
       Inl ''bias unavailable''
   \<and> HallucinationMetric (ragas_only_deepeval ''Answer Relevancy (ragas)'') (model stub_evaluator) =
       Inl ''hallucination unavailable''
   \<and> evaluate (ieee False) (ragas_only_deepeval ''Answer Relevancy (ragas)'') stub_evaluator
        ''What is X?'' ''X is ...'' None =
       Inr \<lparr>metrics = [(''Answer Relevancy (ragas)'',
               \<lparr>score = PyFloat zero_point_eight, reason = PyStr ''relevant''\<rparr>)],
            aggregate = Some zero_point_eight\<rparr>
   \<and> map_of [(''Answer Relevancy (ragas)'',
               \<lparr>score = PyFloat zero_point_eight, reason = PyStr ''relevant''\<rparr>)]
        ''relevancy'' = None
   \<and> evaluate (ieee False) (ragas_only_deepeval ''Answer Relevancy (ragas)'') stub_evaluator
        ''What is X?'' ''X is ...'' None \<noteq>
       Inr \<lparr>metrics = [(''relevancy'',
               \<lparr>score = PyFloat zero_point_eight, reason = PyStr ''relevant''\<rparr>)],
            aggregate = Some zero_point_eight\<rparr>"
proof -
  let ?E = "ragas_only_deepeval ''Answer Relevancy (ragas)''"
  let ?m = "stub_metric ''Answer Relevancy (ragas)''
      (Inr (PyFloat zero_point_eight, PyStr ''relevant''))"
  have 1: "instantiate_relevancy ?E stub_evaluator [] = [?m]"
    by (simp add: instantiate_relevancy_def ragas_only_deepeval_def stub_deepeval_def)
  have 2: "measure ?m (make_test_case ''What is X?'' ''X is ...'' None) =
      Inr (PyFloat zero_point_eight, PyStr ''relevant'')"
    by (simp add: stub_metric_def)
  have 3: "BiasMetric ?E (model stub_evaluator) = Inl ''bias unavailable''"
    by (simp add: ragas_only_deepeval_def stub_deepeval_def)
  have 4: "HallucinationMetric ?E (model stub_evaluator) = Inl ''hallucination unavailable''"
    by (simp add: ragas_only_deepeval_def stub_deepeval_def)
  have ms: "instantiate_metrics ?E stub_evaluator = [?m]"
    by (simp add: instantiate_metrics_def instantiate_hallucination_def instantiate_bias_def 1 3 4)
  have a: "aggregate_of (ieee False) [zero_point_eight] = Some zero_point_eight"
    by (rule aggregate_of_08)
  have ev: "evaluate (ieee False) ?E stub_evaluator ''What is X?'' ''X is ...'' None =
      Inr \<lparr>metrics = [(''Answer Relevancy (ragas)'',
               \<lparr>score = PyFloat zero_point_eight, reason = PyStr ''relevant''\<rparr>)],
           aggregate = Some zero_point_eight\<rparr>"
    by (simp add: evaluate_def ms loop_body_def score_metric_def stub_metric_def Let_def a)
  from 1 2 3 4 show ?thesis by (simp add: ev)
qed

section \<open>Properties of the ingestion adapter\<close>

text \<open>
  C4. The documents live in one list of the module, outside every instance. A
  construction appends to it the documents of its steps up to the first one that
  raises out of the constructor (all the documents of its files and of its links when
  none does), and changes nothing else of it: after two constructions the list is the
  old one followed by what the first and then the second loaded. So what earlier
  constructions appended is still there after a later one, whether or not a
  construction raised, and the object a construction returns holds nothing but its two
  argument lists.
\<close>

theorem docs_is_shared_and_cumulative:
  "docs (fst (document_loader_init env files1 links1 st)) =
     docs st @ loaded_until_failure (construction_steps env files1 links1)
   \<and> docs (fst (document_loader_init env files2 links2
          (fst (document_loader_init env files1 links1 st)))) =
       docs st @ loaded_until_failure (construction_steps env files1 links1)
               @ loaded_until_failure (construction_steps env files2 links2)
   \<and> ((\<forall>p \<in> set (list_or_empty files1). \<exists>ds. file_outcome env p = Inr ds) \<and>
       (\<forall>l \<in> set (list_or_empty links1). WebBaseLoader_init env (loader_for l) = None) \<longrightarrow>
         loaded_until_failure (construction_steps env files1 links1) =
           concat (map (file_docs env) (list_or_empty files1))
           @ concat (map (link_docs env) (list_or_empty links1)))
   \<and> prefix (docs st)
       (docs (fst (document_loader_init env files1 links1 st)))
   \<and> prefix (docs (fst (document_loader_init env files1 links1 st)))
       (docs (fst (document_loader_init env files2 links2
          (fst (document_loader_init env files1 links1 st)))))
   \<and> ((\<exists>e. snd (document_loader_init env files1 links1 st) = Inl e) \<or>
       snd (document_loader_init env files1 links1 st) =
         Inr \<lparr>rag_files = list_or_empty files1, rag_links = list_or_empty links1\<rparr>)"
proof -
  let ?r1 = "document_loader_init env files1 links1 st"
  let ?fs = "list_or_empty files1" and ?ls = "list_or_empty links1"
  have e1: "docs (fst ?r1) = docs st @ loaded_until_failure (construction_steps env files1 links1)"
    by (rule document_loader_init_docs)
  have e2: "docs (fst (document_loader_init env files2 links2 (fst ?r1))) =
       docs st @ loaded_until_failure (construction_steps env files1 links1)
               @ loaded_until_failure (construction_steps env files2 links2)"
    by (simp add: document_loader_init_docs)
  have ok: "loaded_until_failure (construction_steps env files1 links1) =
           concat (map (file_docs env) ?fs) @ concat (map (link_docs env) ?ls)"
    if f: "\<forall>p \<in> set ?fs. \<exists>ds. file_outcome env p = Inr ds"
      and l: "\<forall>l \<in> set ?ls. WebBaseLoader_init env (loader_for l) = None"
  proof -
    have s: "\<forall>l \<in> set ?ls. link_step env l = Inr (link_docs env l)"
      using l by (simp add: link_step_def)
    have "first_failure (construction_steps env files1 links1) = None"
      unfolding first_failure_None_iff construction_steps_def using f s by auto
    then have u: "loaded_until_failure (construction_steps env files1 links1) =
        concat (map loaded_docs (construction_steps env files1 links1))"
      by (rule loaded_until_failure_ok)
    have m1: "map loaded_docs (map (file_outcome env) ?fs) = map (file_docs env) ?fs"
      by (simp add: file_docs_def)
    have m2: "map loaded_docs (map (link_step env) ?ls) = map (link_docs env) ?ls"
      using s by (simp add: loaded_docs_def)
    show ?thesis
      using u by (simp only: construction_steps_def map_append concat_append m1 m2)
  qed
  have a: "prefix (docs st) (docs (fst ?r1))"
    by (rule document_loader_init_prefix)
  have b: "prefix (docs (fst ?r1)) (docs (fst (document_loader_init env files2 links2 (fst ?r1))))"
    by (rule document_loader_init_prefix)
  have c: "(\<exists>e. snd ?r1 = Inl e) \<or>
       snd ?r1 = Inr \<lparr>rag_files = list_or_empty files1, rag_links = list_or_empty links1\<rparr>"
  proof (cases "snd ?r1")
    case (Inl e)
    then show ?thesis by blast
  next
    case (Inr self)
    then show ?thesis using document_loader_init_instance[of env files1 links1 st self] by simp
  qed
  from e1 e2 ok a b c show ?thesis by blast
qed

theorem docs_is_shared_and_cumulative_witness:
  "(\<exists>ds. file_outcome two_pages ''a.pdf'' = Inr ds)
   \<and> docs (fst (document_loader_init two_pages (Some [''a.pdf'']) None empty_state)) = [''a1'', ''a2'']
   \<and> docs (fst (document_loader_init two_pages None (Some [''http://one''])
        (fst (document_loader_init two_pages (Some [''a.pdf'']) None empty_state)))) =
       [''a1'', ''a2'', ''one'']
   \<and> snd (document_loader_init two_pages (Some [''a.pdf'']) None empty_state) =
       Inr \<lparr>rag_files = [''a.pdf''], rag_links = []\<rparr>
   \<and> prefix (docs empty_state)
       (docs (fst (document_loader_init two_pages (Some [''a.pdf'']) None empty_state)))
   \<and> prefix (docs (fst (document_loader_init two_pages (Some [''a.pdf'']) None empty_state)))
       (docs (fst (document_loader_init two_pages None (Some [''http://one''])
          (fst (document_loader_init two_pages (Some [''a.pdf'']) None empty_state)))))"
proof -
  have ext: "ends_ci ''a.pdf'' ''.pdf''"
    by (simp add: ends_ci_def same_letter_def lower_char_def)
  have a: "file_outcome two_pages ''a.pdf'' = Inr [''a1'', ''a2'']"
    by (simp add: file_outcome_def ext stub_world)
  have h1: "\<forall>p \<in> set (list_or_empty (Some [''a.pdf''])). \<exists>ds. file_outcome two_pages p = Inr ds"
    using a by simp
  have h2: "\<forall>l \<in> set (list_or_empty None). WebBaseLoader_init two_pages (loader_for l) = None"
    by simp
  have s2: "loaded_until_failure (construction_steps two_pages None (Some [''http://one''])) = [''one'']"
    by (simp add: construction_steps_def link_step_def link_docs_def loaded_docs_def stub_world)
  have r: "snd (document_loader_init two_pages (Some [''a.pdf'']) None empty_state) =
       Inr \<lparr>rag_files = [''a.pdf''], rag_links = []\<rparr>"
    by (simp add: run_defs stub_world empty_state_def)
  note t = docs_is_shared_and_cumulative[of two_pages "Some [''a.pdf'']" None empty_state
      None "Some [''http://one'']"]
  from t h1 h2 have s1: "loaded_until_failure (construction_steps two_pages (Some [''a.pdf'']) None) =
      concat (map (file_docs two_pages) (list_or_empty (Some [''a.pdf''])))
      @ concat (map (link_docs two_pages) (list_or_empty None))"
    by blast
  then have s1': "loaded_until_failure (construction_steps two_pages (Some [''a.pdf'']) None) =
      [''a1'', ''a2'']"
    by (simp add: file_docs_def a loaded_docs_def)
  have d1: "docs (fst (document_loader_init two_pages (Some [''a.pdf'']) None empty_state)) =
      [''a1'', ''a2'']"
    using t[THEN conjunct1] by (simp add: s1' empty_state_def)
  have d2: "docs (fst (document_loader_init two_pages None (Some [''http://one''])
        (fst (document_loader_init two_pages (Some [''a.pdf'']) None empty_state)))) =
       [''a1'', ''a2'', ''one'']"
    using t[THEN conjunct2, THEN conjunct1] by (simp add: s1' s2 empty_state_def)
  from t have p1: "prefix (docs empty_state)
       (docs (fst (document_loader_init two_pages (Some [''a.pdf'']) None empty_state)))"
    by blast
  from t have p2: "prefix (docs (fst (document_loader_init two_pages (Some [''a.pdf'']) None empty_state)))
       (docs (fst (document_loader_init two_pages None (Some [''http://one''])
          (fst (document_loader_init two_pages (Some [''a.pdf'']) None empty_state)))))"
    by blast
  from a d1 d2 r p1 p2 show ?thesis by blast
qed

text \<open>
  C5. Executing the module constructs a \<open>document_loader\<close> for the single hard-coded
  link \<open>https://deepeval.com/guides/guides-ai-agent-evaluation\<close>: the web loader is
  built and asked to load that link, and after the import \<open>docs\<close> holds what the load
  returned (nothing when the load raised, which is reported on the console). Only a
  raising loader constructor leaves \<open>docs\<close> empty by aborting the import.
\<close>

theorem import_loads_the_hard_coded_link:
  "guide_url = ''https://deepeval.com/guides/guides-ai-agent-evaluation''
   \<and> import_doc_loader env =
     (case WebBaseLoader_init env (loader_for guide_url) of
        Some e \<Rightarrow> (\<lparr>docs = [], stdout = [PrintedArgs [] [guide_url]]\<rparr>, Some e)
      | None \<Rightarrow>
          (\<lparr>docs = link_docs env guide_url,
            stdout = PrintedArgs [] [guide_url] # link_output env guide_url
                     @ [PrintedDocs (link_docs env guide_url),
                        PrintedDocs (link_docs env guide_url)]\<rparr>,
           None))"
proof (cases "WebBaseLoader_init env (loader_for guide_url)")
  case (Some e)
  then have "document_loader_init env None (Some [guide_url]) \<lparr>docs = [], stdout = []\<rparr> =
      (\<lparr>docs = [], stdout = [PrintedArgs [] [guide_url]]\<rparr>, Inl e)"
    by (simp add: document_loader_init_def build_vectorstore_def py_print_def)
  with Some show ?thesis
    by (simp add: import_doc_loader_def guide_url_def)
next
  case None
  have fs: "\<forall>p \<in> set (list_or_empty None). \<exists>ds. file_outcome env p = Inr ds" by simp
  have ls: "\<forall>l \<in> set (list_or_empty (Some [guide_url])). WebBaseLoader_init env (loader_for l) = None"
    using None by simp
  have ne: "list_or_empty None \<noteq> [] \<or> list_or_empty (Some [guide_url]) \<noteq> []" by simp
  note eq = document_loader_init_ok[OF fs ls ne, of "\<lparr>docs = [], stdout = []\<rparr>"]
  have "import_doc_loader env =
          (\<lparr>docs = link_docs env guide_url,
            stdout = PrintedArgs [] [guide_url] # link_output env guide_url
                     @ [PrintedDocs (link_docs env guide_url),
                        PrintedDocs (link_docs env guide_url)]\<rparr>,
           None)"
    unfolding import_doc_loader_def Let_def eq by (simp add: py_print_def)
  with None show ?thesis by (simp add: guide_url_def)
qed

theorem import_loads_the_hard_coded_link_witness:
  "WebBaseLoader_load guide_online
      \<lparr>web_path = ''https://deepeval.com/guides/guides-ai-agent-evaluation'',
       requests_per_second = 1, trust_env = True\<rparr> = Inr [''AI agent evaluation guide'']
   \<and> docs (fst (import_doc_loader guide_online)) = [''AI agent evaluation guide'']
   \<and> snd (import_doc_loader guide_online) = None"
proof -
  have i: "WebBaseLoader_init guide_online (loader_for guide_url) = None"
    by (simp add: guide_online_def stub_langchain_def)
  have l: "WebBaseLoader_load guide_online (loader_for guide_url) = Inr [''AI agent evaluation guide'']"
    by (simp add: guide_online_def stub_langchain_def lookup_outcome_def loader_for_def)
  have d: "link_docs guide_online guide_url = [''AI agent evaluation guide'']"
    by (simp add: link_docs_def loaded_docs_def l)
  note t = import_loads_the_hard_coded_link[of guide_online, THEN conjunct2]
  have "docs (fst (import_doc_loader guide_online)) = [''AI agent evaluation guide'']"
    and "snd (import_doc_loader guide_online) = None"
    unfolding t by (simp_all add: i d)
  with l show ?thesis by (simp add: loader_for_def guide_url_def)
qed

text \<open>
  C6. When the loader of a file (a path ending in \<open>.pdf\<close>, \<open>.xls\<close> or \<open>.xlsx\<close>) raises,
  the exception leaves the constructor: \<open>docs\<close> keeps what the files before it gave, no
  later file and no link is handled. A link whose \<open>load\<close> raises, in contrast, is
  reported and the constructor returns normally.
\<close>

theorem file_loader_failure_aborts:
  assumes before: "\<forall>p \<in> set pre. \<exists>ds. file_outcome env p = Inr ds"
    and fails: "file_outcome env f = Inl e"
  shows "(ends_ci f ''.pdf'' \<or> ends_ci f ''.xls'' \<or> ends_ci f ''.xlsx'')
       \<and> document_loader_init env (Some (pre @ f # post)) links st =
           (\<lparr>docs = docs st @ concat (map (file_docs env) pre),
             stdout = stdout st @ [PrintedArgs (pre @ f # post) (list_or_empty links)]\<rparr>,
            Inl e)
       \<and> (\<forall>l e'. WebBaseLoader_init env (loader_for l) = None \<longrightarrow>
                  WebBaseLoader_load env (loader_for l) = Inl e' \<longrightarrow>
             document_loader_init env None (Some [l]) st =
               (\<lparr>docs = docs st,
                 stdout = stdout st @ [PrintedArgs [] [l], PrintedLoader (loader_for l),
                            PrintedText (''Failed to load '' @ l @ '': '' @ e'),
                            PrintedDocs (docs st)]\<rparr>,
                Inr \<lparr>rag_files = [], rag_links = [l]\<rparr>))"
proof -
  have kind: "ends_ci f ''.pdf'' \<or> ends_ci f ''.xls'' \<or> ends_ci f ''.xlsx''"
    using fails by (auto simp add: file_outcome_def split: if_splits)
  have abort: "document_loader_init env (Some (pre @ f # post)) links st =
           (\<lparr>docs = docs st @ concat (map (file_docs env) pre),
             stdout = stdout st @ [PrintedArgs (pre @ f # post) (list_or_empty links)]\<rparr>,
            Inl e)"
    using before fails by (rule document_loader_init_file_fails)
  have web: "document_loader_init env None (Some [l]) st =
               (\<lparr>docs = docs st,
                 stdout = stdout st @ [PrintedArgs [] [l], PrintedLoader (loader_for l),
                            PrintedText (''Failed to load '' @ l @ '': '' @ e'),
                            PrintedDocs (docs st)]\<rparr>,
                Inr \<lparr>rag_files = [], rag_links = [l]\<rparr>)"
    if "WebBaseLoader_init env (loader_for l) = None"
      and "WebBaseLoader_load env (loader_for l) = Inl e'" for l e'
    using that by (simp add: document_loader_init_def build_vectorstore_def Let_def py_print_def)
  from kind abort web show ?thesis by blast
qed

theorem file_loader_failure_aborts_witness:
  "file_outcome two_pages ''a.pdf'' = Inr [''a1'', ''a2'']
   \<and> file_outcome two_pages ''broken.pdf'' = Inl ''cannot parse''
   \<and> document_loader_init two_pages (Some [''a.pdf'', ''broken.pdf'', ''b.XLSX''])
        (Some [''http://one'']) empty_state =
       (\<lparr>docs = [''a1'', ''a2''],
         stdout = [PrintedArgs [''a.pdf'', ''broken.pdf'', ''b.XLSX''] [''http://one'']]\<rparr>,
        Inl ''cannot parse'')
   \<and> WebBaseLoader_load two_pages (loader_for ''http://bad'') = Inl ''404''
   \<and> snd (document_loader_init two_pages None (Some [''http://bad'']) empty_state) =
       Inr \<lparr>rag_files = [], rag_links = [''http://bad'']\<rparr>"
proof -
  have ext: "ends_ci ''a.pdf'' ''.pdf''" "ends_ci ''broken.pdf'' ''.pdf''"
    by (simp_all add: ends_ci_def same_letter_def lower_char_def)
  have a: "file_outcome two_pages ''a.pdf'' = Inr [''a1'', ''a2'']"
    by (simp add: file_outcome_def ext stub_world)
  have b: "file_outcome two_pages ''broken.pdf'' = Inl ''cannot parse''"
    by (simp add: file_outcome_def ext stub_world)
  have pre: "\<forall>p \<in> set [''a.pdf'']. \<exists>ds. file_outcome two_pages p = Inr ds"
    using a by simp
  have i: "WebBaseLoader_init two_pages (loader_for ''http://bad'') = None"
    by (simp add: stub_world)
  have l: "WebBaseLoader_load two_pages (loader_for ''http://bad'') = Inl ''404''"
    by (simp add: stub_world)
  note t = file_loader_failure_aborts[OF pre b, of "[''b.XLSX'']" "Some [''http://one'']" empty_state]
  have 1: "document_loader_init two_pages (Some [''a.pdf'', ''broken.pdf'', ''b.XLSX''])
        (Some [''http://one'']) empty_state =
       (\<lparr>docs = [''a1'', ''a2''],
         stdout = [PrintedArgs [''a.pdf'', ''broken.pdf'', ''b.XLSX''] [''http://one'']]\<rparr>,
        Inl ''cannot parse'')"
    using t[THEN conjunct2, THEN conjunct1] by (simp add: file_docs_def a loaded_docs_def empty_state_def)
  from t[THEN conjunct2, THEN conjunct2] i l
  have "document_loader_init two_pages None (Some [''http://bad'']) empty_state =
               (\<lparr>docs = docs empty_state,
                 stdout = stdout empty_state @ [PrintedArgs [] [''http://bad''], PrintedLoader (loader_for ''http://bad''),
                            PrintedText (''Failed to load '' @ ''http://bad'' @ '': '' @ ''404''),
                            PrintedDocs (docs empty_state)]\<rparr>,
                Inr \<lparr>rag_files = [], rag_links = [''http://bad'']\<rparr>)"
    by blast
  then have 2: "snd (document_loader_init two_pages None (Some [''http://bad'']) empty_state) =
       Inr \<lparr>rag_files = [], rag_links = [''http://bad'']\<rparr>"
    by simp
  from a b 1 l 2 show ?thesis by blast
qed

text \<open>
  C7, as amended. For every list of links, provided the web loader object is
  constructed for each of them (and the files, if any, load without error): a \<open>load\<close>
  that raises is caught, the message \<open>Failed to load <link>: <error>\<close> is printed, and
  the loop goes on; the constructor returns normally and \<open>docs\<close> has received the
  documents of every link that loaded, in order.
\<close>

theorem failed_link_does_not_abort:
  assumes files_ok: "\<forall>p \<in> set (list_or_empty files). \<exists>ds. file_outcome env p = Inr ds"
    and built: "\<forall>l \<in> set links. WebBaseLoader_init env (loader_for l) = None"
  shows "snd (document_loader_init env files (Some links) st) =
           Inr \<lparr>rag_files = list_or_empty files, rag_links = links\<rparr>
       \<and> docs (fst (document_loader_init env files (Some links) st)) =
           docs st @ concat (map (file_docs env) (list_or_empty files))
                   @ concat (map (link_docs env) links)
       \<and> (\<forall>l \<in> set links. \<forall>e. WebBaseLoader_load env (loader_for l) = Inl e \<longrightarrow>
             link_docs env l = [] \<and>
             PrintedText (''Failed to load '' @ l @ '': '' @ e)
               \<in> set (stdout (fst (document_loader_init env files (Some links) st))))
       \<and> (\<forall>l \<in> set links. \<forall>ds. WebBaseLoader_load env (loader_for l) = Inr ds \<longrightarrow>
             link_docs env l = ds)"
proof (cases "list_or_empty files = [] \<and> links = []")
  case True
  then show ?thesis by (simp add: document_loader_init_nothing)
next
  case False
  then have ne: "list_or_empty files \<noteq> [] \<or> list_or_empty (Some links) \<noteq> []" by simp
  have ls: "\<forall>l \<in> set (list_or_empty (Some links)). WebBaseLoader_init env (loader_for l) = None"
    using built by simp
  note eq = document_loader_init_ok[OF files_ok ls ne, of st]
  have msg: "PrintedText (''Failed to load '' @ l @ '': '' @ e)
      \<in> set (stdout (fst (document_loader_init env files (Some links) st)))"
    if "l \<in> set links" "WebBaseLoader_load env (loader_for l) = Inl e" for l e
  proof -
    have "PrintedText (''Failed to load '' @ l @ '': '' @ e) \<in> set (link_output env l)"
      using that(2) by (simp add: link_output_def)
    with that(1) show ?thesis by (auto simp add: eq)
  qed
  have d: "docs (fst (document_loader_init env files (Some links) st)) =
           docs st @ concat (map (file_docs env) (list_or_empty files))
                   @ concat (map (link_docs env) links)"
    by (simp add: eq)
  have r: "snd (document_loader_init env files (Some links) st) =
           Inr \<lparr>rag_files = list_or_empty files, rag_links = links\<rparr>"
    by (simp add: eq)
  from d r msg show ?thesis by (simp add: link_docs_def loaded_docs_def)
qed

theorem failed_link_does_not_abort_witness:
  "WebBaseLoader_load two_pages (loader_for ''http://bad'') = Inl ''404''
   \<and> snd (document_loader_init two_pages None
        (Some [''http://one'', ''http://bad'', ''http://two'']) \<lparr>docs = [''old''], stdout = []\<rparr>) =
       Inr \<lparr>rag_files = [], rag_links = [''http://one'', ''http://bad'', ''http://two'']\<rparr>
   \<and> docs (fst (document_loader_init two_pages None
        (Some [''http://one'', ''http://bad'', ''http://two'']) \<lparr>docs = [''old''], stdout = []\<rparr>)) =
       [''old'', ''one'', ''two'']
   \<and> PrintedText ''Failed to load http://bad: 404''
       \<in> set (stdout (fst (document_loader_init two_pages None
        (Some [''http://one'', ''http://bad'', ''http://two'']) \<lparr>docs = [''old''], stdout = []\<rparr>)))"
proof -
  let ?links = "[''http://one'', ''http://bad'', ''http://two'']"
  let ?st = "\<lparr>docs = [''old''], stdout = []\<rparr> :: string module_state"
  have f: "\<forall>p \<in> set (list_or_empty None). \<exists>ds. file_outcome two_pages p = Inr ds"
    by simp
  have b: "\<forall>l \<in> set ?links. WebBaseLoader_init two_pages (loader_for l) = None"
    by (simp add: stub_world)
  have bad: "WebBaseLoader_load two_pages (loader_for ''http://bad'') = Inl ''404''"
    by (simp add: stub_world)
  have ld: "concat (map (link_docs two_pages) ?links) = [''one'', ''two'']"
    by (simp add: link_docs_def loaded_docs_def stub_world)
  note t = failed_link_does_not_abort[OF f b, of ?st]
  have 1: "snd (document_loader_init two_pages None (Some ?links) ?st) =
       Inr \<lparr>rag_files = [], rag_links = ?links\<rparr>"
    using t[THEN conjunct1] by (simp only: list_or_empty_simps)
  have 2: "docs (fst (document_loader_init two_pages None (Some ?links) ?st)) =
       [''old'', ''one'', ''two'']"
    using t[THEN conjunct2, THEN conjunct1] unfolding ld by simp
  have "''http://bad'' \<in> set ?links" by simp
  with t[THEN conjunct2, THEN conjunct2, THEN conjunct1] bad
  have "PrintedText (''Failed to load '' @ ''http://bad'' @ '': '' @ ''404'')
       \<in> set (stdout (fst (document_loader_init two_pages None (Some ?links) ?st)))"
    by blast
  then have 3: "PrintedText ''Failed to load http://bad: 404''
       \<in> set (stdout (fst (document_loader_init two_pages None (Some ?links) ?st)))"
    by simp
  from bad 1 2 3 show ?thesis by blast
qed

text \<open>
  C7, as stated, fails: only \<open>loader.load()\<close> is inside the \<open>try\<close>. The call
  \<open>WebBaseLoader(...)\<close> and the \<open>print\<close> of the loader stand before it, so when the
  constructor raises for a link the exception leaves \<open>document_loader\<close>: no message
  for that link is printed and the links after it are not loaded, though they would
  load.
\<close>

theorem constructor_failure_aborts_counterexample:
  "WebBaseLoader_init broken_constructor (loader_for ''http://bad'') = Some ''invalid URL''
   \<and> WebBaseLoader_load broken_constructor (loader_for ''http://two'') = Inr [''two'']
   \<and> document_loader_init broken_constructor None
        (Some [''http://one'', ''http://bad'', ''http://two'']) empty_state =
       (\<lparr>docs = [''one''],
         stdout = [PrintedArgs [] [''http://one'', ''http://bad'', ''http://two''],
                   PrintedLoader (loader_for ''http://one'')]\<rparr>,
        Inl ''invalid URL'')"
  by (simp add: run_defs broken_world empty_state_def)

text \<open>
  C8. When no path of \<open>rag_files\<close> ends, case-insensitively, in \<open>.pdf\<close>, \<open>.xls\<close> or
  \<open>.xlsx\<close> and no link is given, constructing the adapter leaves the shared list
  \<open>docs\<close> as it was and returns the instance: no exception, and nothing printed for a
  skipped file (the construction prints its arguments and the list once when there is
  a path at all).
\<close>

theorem unsupported_files_are_skipped:
  assumes unsupported:
      "\<forall>p \<in> set files. \<not> ends_ci p ''.pdf'' \<and> \<not> ends_ci p ''.xls'' \<and> \<not> ends_ci p ''.xlsx''"
    and no_links: "links = None \<or> links = Some []"
  shows "docs (fst (document_loader_init env (Some files) links st)) = docs st
       \<and> snd (document_loader_init env (Some files) links st) =
           Inr \<lparr>rag_files = files, rag_links = []\<rparr>
       \<and> stdout (fst (document_loader_init env (Some files) links st)) =
           stdout st @ (if files = [] then [] else [PrintedArgs files [], PrintedDocs (docs st)])"
proof -
  have l: "list_or_empty links = []" using no_links by auto
  have o: "file_outcome env p = Inr []" if "p \<in> set files" for p
    using unsupported that by (simp add: unsupported_outcome)
  show ?thesis
  proof (cases "files = []")
    case True
    then show ?thesis by (simp add: document_loader_init_nothing l)
  next
    case False
    have fs: "\<forall>p \<in> set (list_or_empty (Some files)). \<exists>ds. file_outcome env p = Inr ds"
      using o by simp
    have ls: "\<forall>k \<in> set (list_or_empty links). WebBaseLoader_init env (loader_for k) = None"
      by (simp add: l)
    have ne: "list_or_empty (Some files) \<noteq> [] \<or> list_or_empty links \<noteq> []"
      using False by simp
    have none: "concat (map (file_docs env) files) = []"
      by (rule concat_all_Nil) (simp add: file_docs_def o loaded_docs_def)
    show ?thesis
      using False by (simp add: document_loader_init_ok[OF fs ls ne] l none)
  qed
qed

theorem unsupported_files_are_skipped_witness:
  "(\<not> ends_ci ''notes.txt'' ''.pdf'' \<and> \<not> ends_ci ''notes.txt'' ''.xls'' \<and> \<not> ends_ci ''notes.txt'' ''.xlsx'')
   \<and> (\<not> ends_ci ''a.pdf.bak'' ''.pdf'' \<and> \<not> ends_ci ''a.pdf.bak'' ''.xls'' \<and> \<not> ends_ci ''a.pdf.bak'' ''.xlsx'')
   \<and> docs (fst (document_loader_init two_pages (Some [''notes.txt'', ''a.pdf.bak'']) None
        \<lparr>docs = [''old''], stdout = []\<rparr>)) = [''old'']
   \<and> snd (document_loader_init two_pages (Some [''notes.txt'', ''a.pdf.bak'']) None
        \<lparr>docs = [''old''], stdout = []\<rparr>) = Inr \<lparr>rag_files = [''notes.txt'', ''a.pdf.bak''], rag_links = []\<rparr>"
proof -
  have a: "\<not> ends_ci ''notes.txt'' ''.pdf'' \<and> \<not> ends_ci ''notes.txt'' ''.xls'' \<and> \<not> ends_ci ''notes.txt'' ''.xlsx''"
    by (simp add: ends_ci_def same_letter_def lower_char_def)
  have b: "\<not> ends_ci ''a.pdf.bak'' ''.pdf'' \<and> \<not> ends_ci ''a.pdf.bak'' ''.xls'' \<and> \<not> ends_ci ''a.pdf.bak'' ''.xlsx''"
    by (simp add: ends_ci_def same_letter_def lower_char_def)
  have u: "\<forall>p \<in> set [''notes.txt'', ''a.pdf.bak'']. \<not> ends_ci p ''.pdf'' \<and> \<not> ends_ci p ''.xls'' \<and> \<not> ends_ci p ''.xlsx''"
    using a b by simp
  have n: "(None :: string list option) = None \<or> None = Some []" by simp
  from unsupported_files_are_skipped[OF u n, of two_pages "\<lparr>docs = [''old''], stdout = []\<rparr>"] a b
  show ?thesis by simp
qed

end
